theory Spec2Isabelle
  imports Main "HOL-Library.AList"
begin

section \<open>Shared types (types/qa.ts, types/agent.ts)\<close>

text \<open>
  The enums of the type files become datatypes, the interfaces records. Timestamps
  (\<^verbatim>\<open>Date\<close>, \<^verbatim>\<open>Date.now()\<close>) are integers of milliseconds. Payload
  interfaces keep the fields the orchestration core reads; where two interfaces use the
  same field name, or the name is taken in HOL, the field carries a prefix.
\<close>

datatype QAStatus = NOT_STARTED | IN_PROGRESS | DONE | NOT_ACTIONABLE | IN_REVIEW | CANCELLED

datatype SessionStatus = CREATED | RUNNING | COMPLETED | FAILED | TIMEOUT

datatype WorkflowPhase =
  DETECTION | ANALYSIS | CLASSIFICATION | IMPLEMENTATION | PR_CREATION | COMPLETION

record NotionQAItem =
  qa_id :: string
  qa_url :: string
  qa_title :: string
  qa_description :: string
  qa_status :: QAStatus
  qa_reporter :: string

record QAAnalysis =
  analysis_summary :: string

record ClassificationDecision =
  shouldAct :: bool
  reason :: string

record CodeChanges =
  changes_summary :: string

record PullRequest =
  pr_url :: string
  pr_number :: int
  pr_branch :: string
  pr_labels :: "string list"

record ProjectConfig =
  project_id :: string
  project_name :: string

text \<open>\<^verbatim>\<open>SessionError\<close> and the \<^verbatim>\<open>error\<close> member of \<^verbatim>\<open>AgentResult\<close>: message,
  code and the retryable flag (the optional \<^verbatim>\<open>stack\<close> and \<^verbatim>\<open>phase\<close> members are
  never written by the code).\<close>

record SessionError =
  message :: string
  code :: string
  retryable :: bool

record AgentContext =
  sessionId :: string
  qaItem :: NotionQAItem
  projectId :: "string option"
  projectConfig :: "ProjectConfig option"
  analysis :: "QAAnalysis option"
  decision :: "ClassificationDecision option"
  codeChanges :: "CodeChanges option"
  pullRequest :: "PullRequest option"
  createdAt :: int
  updatedAt :: int

text \<open>
  \<^verbatim>\<open>Partial<AgentContext>\<close>: \<open>None\<close> is an absent key. A key of an optional member
  can be present and hold \<^verbatim>\<open>undefined\<close> (\<open>Some None\<close>), which the object spread copies.
\<close>

record PartialContext =
  p_sessionId :: "string option"
  p_qaItem :: "NotionQAItem option"
  p_projectId :: "string option option"
  p_projectConfig :: "ProjectConfig option option"
  p_analysis :: "QAAnalysis option option"
  p_decision :: "ClassificationDecision option option"
  p_codeChanges :: "CodeChanges option option"
  p_pullRequest :: "PullRequest option option"
  p_createdAt :: "int option"
  p_updatedAt :: "int option"

definition no_updates :: PartialContext where
  "no_updates = \<lparr>p_sessionId = None, p_qaItem = None, p_projectId = None,
     p_projectConfig = None, p_analysis = None, p_decision = None, p_codeChanges = None,
     p_pullRequest = None, p_createdAt = None, p_updatedAt = None\<rparr>"

definition or_keep :: "'a option \<Rightarrow> 'a \<Rightarrow> 'a" where
  "or_keep u old = (case u of None \<Rightarrow> old | Some v \<Rightarrow> v)"

text \<open>The object spread \<^verbatim>\<open>{ ...c, ...u }\<close>.\<close>

definition spread :: "AgentContext \<Rightarrow> PartialContext \<Rightarrow> AgentContext" where
  "spread c u =
     \<lparr>sessionId = or_keep (p_sessionId u) (sessionId c),
      qaItem = or_keep (p_qaItem u) (qaItem c),
      projectId = or_keep (p_projectId u) (projectId c),
      projectConfig = or_keep (p_projectConfig u) (projectConfig c),
      analysis = or_keep (p_analysis u) (analysis c),
      decision = or_keep (p_decision u) (decision c),
      codeChanges = or_keep (p_codeChanges u) (codeChanges c),
      pullRequest = or_keep (p_pullRequest u) (pullRequest c),
      createdAt = or_keep (p_createdAt u) (createdAt c),
      updatedAt = or_keep (p_updatedAt u) (updatedAt c)\<rparr>"

record AgentSession =
  session_id :: string
  qaItemId :: string
  session_projectId :: "string option"
  status :: SessionStatus
  session_context :: AgentContext
  startedAt :: int
  completedAt :: "int option"
  session_error :: "SessionError option"
  currentPhase :: "WorkflowPhase option"
  completedPhases :: "WorkflowPhase list"

section \<open>Session Manager (orchestrator/session-manager.ts)\<close>

text \<open>
  The state of a \<^verbatim>\<open>SessionManager\<close>. \<open>sessions\<close> is the JavaScript \<^verbatim>\<open>Map\<close> in
  insertion order: \<^verbatim>\<open>set\<close> on a present key replaces the value in place, on a new key
  appends. \<open>timeoutHandlers\<close> maps a session id to the handle of the timer armed for it;
  \<open>timers\<close> are the timers of the runtime that are still pending, each with the session
  id its callback closes over and the time it is due; \<open>next_handle\<close> numbers the handles
  \<^verbatim>\<open>setTimeout\<close> returns. \<open>emitted\<close> is the sequence of events passed to \<^verbatim>\<open>emit\<close>.
\<close>

datatype SessionEvent =
  SessionCreated string
  | SessionUpdated string
  | SessionPhase string WorkflowPhase
  | SessionContext string
  | SessionClosed string
  | SessionTimeout string

record SessionManager =
  sessions :: "(string \<times> AgentSession) list"
  timeoutHandlers :: "string \<rightharpoonup> nat"
  timers :: "nat \<rightharpoonup> (string \<times> int)"
  next_handle :: nat
  defaultTimeout :: int
  emitted :: "SessionEvent list"

definition new_SessionManager :: "int \<Rightarrow> SessionManager" where
  "new_SessionManager t =
     \<lparr>sessions = [], timeoutHandlers = Map.empty, timers = Map.empty, next_handle = 0,
      defaultTimeout = t, emitted = []\<rparr>"

definition emit :: "SessionEvent \<Rightarrow> SessionManager \<Rightarrow> SessionManager" where
  "emit e s = s\<lparr>emitted := emitted s @ [e]\<rparr>"

definition get_session :: "SessionManager \<Rightarrow> string \<Rightarrow> AgentSession option" where
  "get_session s sid = map_of (sessions s) sid"

definition put_session :: "string \<Rightarrow> AgentSession \<Rightarrow> SessionManager \<Rightarrow> SessionManager" where
  "put_session sid x s = s\<lparr>sessions := AList.update sid x (sessions s)\<rparr>"

text \<open>\<^verbatim>\<open>setupTimeout\<close>: arm a timer due after \<open>defaultTimeout\<close> and remember its
  handle under the session id (a handle remembered before is overwritten, its timer
  stays pending).\<close>

definition setupTimeout :: "string \<Rightarrow> int \<Rightarrow> SessionManager \<Rightarrow> SessionManager" where
  "setupTimeout sid now s =
     s\<lparr>timers := (timers s)(next_handle s \<mapsto> (sid, now + defaultTimeout s)),
       timeoutHandlers := (timeoutHandlers s)(sid \<mapsto> next_handle s),
       next_handle := Suc (next_handle s)\<rparr>"

text \<open>\<^verbatim>\<open>clearTimeout\<close>: cancel the remembered timer (cancelling one that has fired
  changes nothing) and forget its handle.\<close>

definition clearTimeout :: "string \<Rightarrow> SessionManager \<Rightarrow> SessionManager" where
  "clearTimeout sid s =
     (case timeoutHandlers s sid of
        None \<Rightarrow> s
      | Some h \<Rightarrow> s\<lparr>timers := (timers s)(h := None),
                     timeoutHandlers := (timeoutHandlers s)(sid := None)\<rparr>)"

text \<open>\<^verbatim>\<open>create\<close>; the id \<^verbatim>\<open>generateSessionId\<close> returns (clock and random digits) is
  the parameter \<open>sid\<close>.\<close>

definition create ::
  "string \<Rightarrow> NotionQAItem \<Rightarrow> PartialContext option \<Rightarrow> int \<Rightarrow> SessionManager \<Rightarrow> SessionManager"
where
  "create sid item additionalContext now s =
     (let extra = (case additionalContext of None \<Rightarrow> no_updates | Some u \<Rightarrow> u);
          ctx = spread \<lparr>sessionId = sid, qaItem = item, projectId = None,
                  projectConfig = None, analysis = None, decision = None,
                  codeChanges = None, pullRequest = None, createdAt = now,
                  updatedAt = now\<rparr> extra;
          session = \<lparr>session_id = sid, qaItemId = qa_id item,
                  session_projectId = or_keep (p_projectId extra) None,
                  status = CREATED, session_context = ctx, startedAt = now,
                  completedAt = None, session_error = None, currentPhase = None,
                  completedPhases = []\<rparr>
      in emit (SessionCreated sid) (setupTimeout sid now (put_session sid session s)))"

definition updateStatus ::
  "string \<Rightarrow> SessionStatus \<Rightarrow> SessionError option \<Rightarrow> int \<Rightarrow> SessionManager \<Rightarrow> SessionManager"
where
  "updateStatus sid st err now s =
     (case get_session s sid of
        None \<Rightarrow> s
      | Some session \<Rightarrow>
          (let x1 = session\<lparr>status := st,
                      session_context := (session_context session)\<lparr>updatedAt := now\<rparr>\<rparr>;
               x2 = (case err of None \<Rightarrow> x1 | Some e \<Rightarrow> x1\<lparr>session_error := Some e\<rparr>)
           in if st = COMPLETED \<or> st = FAILED
              then emit (SessionUpdated sid)
                     (clearTimeout sid (put_session sid (x2\<lparr>completedAt := Some now\<rparr>) s))
              else emit (SessionUpdated sid) (put_session sid x2 s)))"

definition updatePhase :: "string \<Rightarrow> WorkflowPhase \<Rightarrow> int \<Rightarrow> SessionManager \<Rightarrow> SessionManager" where
  "updatePhase sid phase now s =
     (case get_session s sid of
        None \<Rightarrow> s
      | Some session \<Rightarrow>
          (let x1 = session\<lparr>currentPhase := Some phase,
                      session_context := (session_context session)\<lparr>updatedAt := now\<rparr>\<rparr>;
               x2 = (if phase \<in> set (completedPhases x1) then x1
                     else x1\<lparr>completedPhases := completedPhases x1 @ [phase]\<rparr>)
           in emit (SessionPhase sid phase) (put_session sid x2 s)))"

definition updateContext :: "string \<Rightarrow> PartialContext \<Rightarrow> int \<Rightarrow> SessionManager \<Rightarrow> SessionManager" where
  "updateContext sid updates now s =
     (case get_session s sid of
        None \<Rightarrow> s
      | Some session \<Rightarrow>
          emit (SessionContext sid)
            (put_session sid
               (session\<lparr>session_context :=
                  (spread (session_context session) updates)\<lparr>updatedAt := now\<rparr>\<rparr>) s))"

definition close :: "string \<Rightarrow> SessionStatus option \<Rightarrow> int \<Rightarrow> SessionManager \<Rightarrow> SessionManager" where
  "close sid st now s =
     (case get_session s sid of
        None \<Rightarrow> s
      | Some session \<Rightarrow>
          (let finalStatus = (case st of None \<Rightarrow> COMPLETED | Some v \<Rightarrow> v)
           in emit (SessionClosed sid)
                (clearTimeout sid (updateStatus sid finalStatus None now s))))"

text \<open>The callback \<^verbatim>\<open>setupTimeout\<close> hands to \<^verbatim>\<open>setTimeout\<close>.\<close>

definition timeout_error :: SessionError where
  "timeout_error = \<lparr>message = ''Session timed out'', code = ''SESSION_TIMEOUT'', retryable = False\<rparr>"

definition timeout_callback :: "string \<Rightarrow> int \<Rightarrow> SessionManager \<Rightarrow> SessionManager" where
  "timeout_callback sid now s =
     (case get_session s sid of
        None \<Rightarrow> s
      | Some session \<Rightarrow>
          if status session = RUNNING
          then emit (SessionTimeout sid) (updateStatus sid TIMEOUT (Some timeout_error) now s)
          else s)"

text \<open>The runtime fires the pending timer \<open>h\<close> at time \<open>now\<close>: nothing happens unless
  \<open>h\<close> is pending and due; a timer fires once.\<close>

definition fire_timer :: "nat \<Rightarrow> int \<Rightarrow> SessionManager \<Rightarrow> SessionManager" where
  "fire_timer h now s =
     (case timers s h of
        None \<Rightarrow> s
      | Some (sid, due) \<Rightarrow>
          if due \<le> now then timeout_callback sid now (s\<lparr>timers := (timers s)(h := None)\<rparr>)
          else s)"

definition session_values :: "SessionManager \<Rightarrow> AgentSession list" where
  "session_values s = map snd (sessions s)"

definition getActiveSessions :: "SessionManager \<Rightarrow> AgentSession list" where
  "getActiveSessions s =
     filter (\<lambda>session. status session = RUNNING \<or> status session = CREATED) (session_values s)"

definition getSessionsByProject :: "SessionManager \<Rightarrow> string \<Rightarrow> AgentSession list" where
  "getSessionsByProject s pid =
     filter (\<lambda>session. session_projectId session = Some pid) (session_values s)"

definition getSessionCount :: "SessionManager \<Rightarrow> nat" where
  "getSessionCount s = length (sessions s)"

definition getActiveSessionCount :: "SessionManager \<Rightarrow> nat" where
  "getActiveSessionCount s = length (getActiveSessions s)"

text \<open>\<^verbatim>\<open>cleanup\<close>: the loop visits every entry of the map once and deletes by key.\<close>

definition expired :: "int \<Rightarrow> AgentSession \<Rightarrow> bool" where
  "expired cutoff session =
     (case completedAt session of
        None \<Rightarrow> False
      | Some t \<Rightarrow> t < cutoff \<and> (status session = COMPLETED \<or> status session = FAILED))"

definition cleanup :: "int \<Rightarrow> int \<Rightarrow> SessionManager \<Rightarrow> SessionManager" where
  "cleanup olderThan now s =
     (let cutoff = now - olderThan
      in s\<lparr>sessions :=
            foldl (\<lambda>m (sid, session). if expired cutoff session then AList.delete sid m else m)
              (sessions s) (sessions s)\<rparr>)"

record SessionStats =
  total :: nat
  active :: nat
  completed :: nat
  failed :: nat
  timeout :: nat

definition getStats :: "SessionManager \<Rightarrow> SessionStats" where
  "getStats s =
     (let xs = session_values s
      in \<lparr>total = length xs,
          active = length (filter (\<lambda>x. status x = RUNNING) xs),
          completed = length (filter (\<lambda>x. status x = COMPLETED) xs),
          failed = length (filter (\<lambda>x. status x = FAILED) xs),
          timeout = length (filter (\<lambda>x. status x = TIMEOUT) xs)\<rparr>)"

text \<open>The operations a client, or the runtime's timer queue, can apply to a store.\<close>

datatype StoreOp =
  Create string NotionQAItem "PartialContext option" int
  | UpdateStatus string SessionStatus "SessionError option" int
  | UpdatePhase string WorkflowPhase int
  | UpdateContext string PartialContext int
  | Close string "SessionStatus option" int
  | Cleanup int int
  | TimerFires nat int

fun apply_op :: "StoreOp \<Rightarrow> SessionManager \<Rightarrow> SessionManager" where
  "apply_op (Create sid item extra now) s = create sid item extra now s"
| "apply_op (UpdateStatus sid st err now) s = updateStatus sid st err now s"
| "apply_op (UpdatePhase sid phase now) s = updatePhase sid phase now s"
| "apply_op (UpdateContext sid u now) s = updateContext sid u now s"
| "apply_op (Close sid st now) s = close sid st now s"
| "apply_op (Cleanup olderThan now) s = cleanup olderThan now s"
| "apply_op (TimerFires h now) s = fire_timer h now s"

definition run_ops :: "StoreOp list \<Rightarrow> SessionManager \<Rightarrow> SessionManager" where
  "run_ops ops s = foldl (\<lambda>acc x. apply_op x acc) s ops"

fun is_cleanup :: "StoreOp \<Rightarrow> bool" where
  "is_cleanup (Cleanup olderThan now) = True"
| "is_cleanup other = False"

section \<open>Backoff executor (utils/retry.ts)\<close>

text \<open>
  A JavaScript \<^verbatim>\<open>Error\<close> as the code reads it: \<^verbatim>\<open>message\<close>, the optional \<^verbatim>\<open>code\<close>
  member and \<^verbatim>\<open>name\<close>. Operations reject with \<^verbatim>\<open>Error\<close> objects (the code casts
  every caught value \<^verbatim>\<open>as Error\<close>). What a function throws is such an error, or the value
  \<^verbatim>\<open>undefined\<close>, which \<^verbatim>\<open>retry\<close> throws when its loop body never ran.
\<close>

record JsError =
  err_message :: string
  err_code :: "string option"
  err_name :: string

datatype thrown = Thrown JsError | ThrownUndefined

subsection \<open>Regular expressions of the classifiers\<close>

text \<open>
  Every pattern of the two classifiers is a literal, with or without the \<^verbatim>\<open>i\<close> flag;
  \<^verbatim>\<open>test\<close> searches the subject for it. Under the flag both sides are compared after
  canonicalisation, which maps the ASCII letters to upper case and never maps another
  character to an ASCII one.
\<close>

datatype pattern = Lit string | LitI string

definition toUpper :: "char \<Rightarrow> char" where
  "toUpper c =
     (let n = (of_char c :: nat) in if 97 \<le> n \<and> n \<le> 122 then char_of (n - 32) else c)"

fun starts_with :: "string \<Rightarrow> string \<Rightarrow> bool" where
  "starts_with [] s = True"
| "starts_with (p # ps) [] = False"
| "starts_with (p # ps) (c # cs) = (p = c \<and> starts_with ps cs)"

fun search :: "string \<Rightarrow> string \<Rightarrow> bool" where
  "search p [] = starts_with p []"
| "search p (c # cs) = (starts_with p (c # cs) \<or> search p cs)"

fun test :: "pattern \<Rightarrow> string \<Rightarrow> bool" where
  "test (Lit p) s = search p s"
| "test (LitI p) s = search (map toUpper p) (map toUpper s)"

subsection \<open>Options\<close>

text \<open>
  \<^verbatim>\<open>RetryOptions\<close>. The numbers are JavaScript numbers holding integers. The \<^verbatim>\<open>onRetry\<close>
  hook returns nothing; what it does to the variables it closes over is a function on a
  state \<open>'h\<close> (in \<^verbatim>\<open>BaseAgent.execute\<close> the hook assigns \<^verbatim>\<open>retryCount\<close>).
\<close>

record 'h RetryOptions =
  maxAttempts :: int
  initialDelay :: int
  maxDelay :: int
  backoffMultiplier :: int
  retryableErrors :: "string list option"
  onRetry :: "(JsError \<Rightarrow> nat \<Rightarrow> 'h \<Rightarrow> 'h) option"

text \<open>\<^verbatim>\<open>Partial<RetryOptions>\<close>: \<open>None\<close> is an absent key.\<close>

record 'h PartialRetryOptions =
  p_maxAttempts :: "int option"
  p_initialDelay :: "int option"
  p_maxDelay :: "int option"
  p_backoffMultiplier :: "int option"
  p_retryableErrors :: "string list option"
  p_onRetry :: "(JsError \<Rightarrow> nat \<Rightarrow> 'h \<Rightarrow> 'h) option"

definition DEFAULT_RETRY_OPTIONS :: "'h RetryOptions" where
  "DEFAULT_RETRY_OPTIONS =
     \<lparr>maxAttempts = 3, initialDelay = 1000, maxDelay = 30000, backoffMultiplier = 2,
      retryableErrors = None, onRetry = None\<rparr>"

text \<open>\<^verbatim>\<open>{ ...DEFAULT_RETRY_OPTIONS, ...options }\<close>.\<close>

definition with_defaults :: "'h PartialRetryOptions \<Rightarrow> 'h RetryOptions" where
  "with_defaults options =
     \<lparr>maxAttempts = or_keep (p_maxAttempts options) 3,
      initialDelay = or_keep (p_initialDelay options) 1000,
      maxDelay = or_keep (p_maxDelay options) 30000,
      backoffMultiplier = or_keep (p_backoffMultiplier options) 2,
      retryableErrors = p_retryableErrors options,
      onRetry = p_onRetry options\<rparr>"

definition calculateDelay :: "nat \<Rightarrow> 'h RetryOptions \<Rightarrow> int" where
  "calculateDelay attempt options =
     min (initialDelay options * backoffMultiplier options ^ (attempt - 1)) (maxDelay options)"

definition retry_patterns :: "pattern list" where
  "retry_patterns =
     [LitI ''network'', LitI ''timeout'', LitI ''rate limit'', Lit ''ECONNRESET'',
      Lit ''ETIMEDOUT'', Lit ''ENOTFOUND'', Lit ''429'', Lit ''502'', Lit ''503'', Lit ''504'']"

text \<open>\<^verbatim>\<open>isRetryableError\<close> of retry.ts. \<^verbatim>\<open>code || name\<close> takes the name when the code is
  absent or empty.\<close>

definition isRetryableError :: "JsError \<Rightarrow> 'h RetryOptions \<Rightarrow> bool" where
  "isRetryableError e options =
     (case retryableErrors options of
        Some (c # cs) \<Rightarrow>
          (let errorCode = (case err_code e of
                              None \<Rightarrow> err_name e
                            | Some k \<Rightarrow> if k = [] then err_name e else k)
           in errorCode \<in> set (c # cs))
      | _ \<Rightarrow> list_ex (\<lambda>p. test p (err_message e)) retry_patterns)"

subsection \<open>The retry loop\<close>

text \<open>
  What a run of \<^verbatim>\<open>retry\<close> leaves behind: how often it invoked the operation, the
  delays it slept, and the state of the variables the hook writes.
\<close>

record 'h retry_state =
  calls :: nat
  slept :: "int list"
  hook_state :: 'h

text \<open>
  The \<^verbatim>\<open>for\<close> loop from \<open>attempt\<close> on. The operation \<open>fn\<close> gives the outcome of its
  invocation number \<open>k\<close> (counted from 0): it resolves (\<open>Inr\<close>) or rejects (\<open>Inl\<close>).
  After the loop \<^verbatim>\<open>throw lastError!\<close> throws the variable as it is; it is unassigned
  exactly when the body never ran, since the body leaves the loop from its last round.
\<close>

function retry_loop ::
  "'h RetryOptions \<Rightarrow> (nat \<Rightarrow> JsError + 'a) \<Rightarrow> nat \<Rightarrow> 'h retry_state \<Rightarrow>
     (thrown + 'a) \<times> 'h retry_state"
where
  "retry_loop opts fn attempt st =
     (if int attempt \<le> maxAttempts opts then
        (case fn (calls st) of
           Inr v \<Rightarrow> (Inr v, st\<lparr>calls := Suc (calls st)\<rparr>)
         | Inl lastError \<Rightarrow>
             if int attempt \<ge> maxAttempts opts
             then (Inl (Thrown lastError), st\<lparr>calls := Suc (calls st)\<rparr>)
             else if \<not> isRetryableError lastError opts
             then (Inl (Thrown lastError), st\<lparr>calls := Suc (calls st)\<rparr>)
             else
               (let delay = calculateDelay attempt opts;
                    h = (case onRetry opts of
                           None \<Rightarrow> hook_state st
                         | Some hook \<Rightarrow> hook lastError attempt (hook_state st))
                in retry_loop opts fn (Suc attempt)
                     (st\<lparr>calls := Suc (calls st), slept := slept st @ [delay],
                        hook_state := h\<rparr>)))
      else (Inl ThrownUndefined, st))"
  by pat_completeness auto
termination
  by (relation "measure (\<lambda>(opts, fn, attempt, st). nat (maxAttempts opts + 1 - int attempt))")
    auto

declare retry_loop.simps [simp del]

definition retry ::
  "(nat \<Rightarrow> JsError + 'a) \<Rightarrow> 'h PartialRetryOptions \<Rightarrow> 'h \<Rightarrow> (thrown + 'a) \<times> 'h retry_state"
where
  "retry fn options h =
     retry_loop (with_defaults options) fn 1 \<lparr>calls = 0, slept = [], hook_state = h\<rparr>"

section \<open>Step runner (agents/base.ts)\<close>

record AgentConfig =
  agentType :: string
  cfg_timeout :: int
  cfg_retries :: int
  cfg_model :: string

text \<open>The configuration handed to the constructor: only \<^verbatim>\<open>agentType\<close> is required.\<close>

record AgentConfigInput =
  in_agentType :: string
  in_timeout :: "int option"
  in_retries :: "int option"
  in_model :: "string option"

text \<open>The constructor: \<^verbatim>\<open>{ timeout: 300000, retries: 3, model: ..., ...config }\<close>.\<close>

definition new_BaseAgent :: "AgentConfigInput \<Rightarrow> AgentConfig" where
  "new_BaseAgent config =
     \<lparr>agentType = in_agentType config,
      cfg_timeout = or_keep (in_timeout config) 300000,
      cfg_retries = or_keep (in_retries config) 3,
      cfg_model = or_keep (in_model config) ''claude-sonnet-4-5-20250929''\<rparr>"

record ResultMetadata =
  executionTime :: int
  retryCount :: nat
  meta_agentType :: string

record 'o AgentResult =
  success :: bool
  data :: "'o option"
  error :: "SessionError option"
  metadata :: ResultMetadata

text \<open>Decimal digits of an integer, as a template literal prints it.\<close>

fun digits :: "nat \<Rightarrow> string" where
  "digits n =
     (if n < 10 then [''0123456789'' ! n]
      else digits (n div 10) @ [''0123456789'' ! (n mod 10)])"

declare digits.simps [simp del]

definition show_int :: "int \<Rightarrow> string" where
  "show_int i = (if i < 0 then CHR ''-'' # digits (nat (- i)) else digits (nat i))"

text \<open>
  One invocation of \<^verbatim>\<open>run\<close> raced against the timer of \<^verbatim>\<open>executeWithTimeout\<close>:
  it settles before the timer fires (\<open>InTime\<close>, resolving or rejecting), or the timer
  fires first (\<open>Late\<close>), after which the operation settles with some result or never.
\<close>

datatype 'o settles = InTime "JsError + 'o" | Late "(JsError + 'o) option"

definition agent_timeout_error :: "int \<Rightarrow> JsError" where
  "agent_timeout_error t =
     \<lparr>err_message = ''Agent timeout after '' @ show_int t @ ''ms'', err_code = None,
      err_name = ''Error''\<rparr>"

text \<open>\<^verbatim>\<open>this.config.timeout || 300000\<close> and \<^verbatim>\<open>this.config.retries || 3\<close>.\<close>

definition effective_timeout :: "AgentConfig \<Rightarrow> int" where
  "effective_timeout config = (if cfg_timeout config = 0 then 300000 else cfg_timeout config)"

definition effective_retries :: "AgentConfig \<Rightarrow> int" where
  "effective_retries config = (if cfg_retries config = 0 then 3 else cfg_retries config)"

text \<open>\<^verbatim>\<open>executeWithTimeout\<close>: \<^verbatim>\<open>Promise.race\<close> settles as the first of the two does.\<close>

definition executeWithTimeout :: "AgentConfig \<Rightarrow> 'o settles \<Rightarrow> JsError + 'o" where
  "executeWithTimeout config r =
     (case r of
        InTime outcome \<Rightarrow> outcome
      | Late later \<Rightarrow> Inl (agent_timeout_error (effective_timeout config)))"

definition agent_patterns :: "pattern list" where
  "agent_patterns =
     [LitI ''rate limit'', LitI ''timeout'', LitI ''network'', Lit ''ECONNRESET'',
      Lit ''ETIMEDOUT'', Lit ''429'', Lit ''502'', Lit ''503'', Lit ''504'']"

text \<open>\<^verbatim>\<open>BaseAgent.isRetryableError\<close>.\<close>

definition agent_isRetryableError :: "JsError \<Rightarrow> bool" where
  "agent_isRetryableError e = list_ex (\<lambda>p. test p (err_message e)) agent_patterns"

text \<open>The \<^verbatim>\<open>TypeError\<close> of reading a property of \<^verbatim>\<open>undefined\<close>.\<close>

definition reading_undefined :: "string \<Rightarrow> JsError" where
  "reading_undefined property =
     \<lparr>err_message = ''Cannot read properties of undefined (reading '' @ [CHR 0x27] @
        property @ [CHR 0x27] @ '')'',
      err_code = None, err_name = ''TypeError''\<rparr>"

definition type_error :: JsError where
  "type_error = reading_undefined ''message''"

text \<open>
  \<^verbatim>\<open>execute\<close>. \<open>run k\<close> is how invocation \<open>k\<close> of the phase's \<^verbatim>\<open>run(input)\<close> fares
  against its timer, \<open>elapsed\<close> what the clock shows at the end. The result is the value
  the returned promise resolves to (\<open>Inr\<close>) or rejects with (\<open>Inl\<close>). The catch block
  reads \<^verbatim>\<open>(error as Error).message\<close> first, which throws when the caught value is
  \<^verbatim>\<open>undefined\<close>.
\<close>

text \<open>The options \<^verbatim>\<open>execute\<close> hands to \<^verbatim>\<open>retry\<close>; the hook assigns \<^verbatim>\<open>retryCount\<close>.\<close>

definition agent_options :: "AgentConfig \<Rightarrow> nat PartialRetryOptions" where
  "agent_options config =
     \<lparr>p_maxAttempts = Some (effective_retries config),
      p_initialDelay = None, p_maxDelay = None, p_backoffMultiplier = None,
      p_retryableErrors = None,
      p_onRetry = Some (\<lambda>e attempt retryCount. attempt)\<rparr>"

definition execute ::
  "AgentConfig \<Rightarrow> (nat \<Rightarrow> 'o settles) \<Rightarrow> int \<Rightarrow> JsError + 'o AgentResult" where
  "execute config run elapsed =
     (case retry (\<lambda>k. executeWithTimeout config (run k)) (agent_options config) 0 of
        (Inr result, st) \<Rightarrow>
          Inr \<lparr>success = True, data = Some result, error = None,
               metadata = \<lparr>executionTime = elapsed, retryCount = hook_state st,
                            meta_agentType = agentType config\<rparr>\<rparr>
      | (Inl (Thrown e), st) \<Rightarrow>
          Inr \<lparr>success = False, data = None,
               error = Some \<lparr>message = err_message e,
                         code = (case err_code e of
                                   None \<Rightarrow> ''AGENT_ERROR''
                                 | Some k \<Rightarrow> if k = [] then ''AGENT_ERROR'' else k),
                         retryable = agent_isRetryableError e\<rparr>,
               metadata = \<lparr>executionTime = elapsed, retryCount = hook_state st,
                            meta_agentType = agentType config\<rparr>\<rparr>
      | (Inl ThrownUndefined, st) \<Rightarrow> Inl type_error)"

section \<open>Collaborators (services/notion-mcp.ts, services/slack-notifier.ts)\<close>

text \<open>
  The orchestrator talks to the item tracker through three methods of
  \<^verbatim>\<open>NotionMCPClient\<close> and to the chat channel through the four \<^verbatim>\<open>notify\<close> methods of
  \<^verbatim>\<open>SlackNotifier\<close>. The three comment templates of the orchestrator are kept as
  constructors holding the interpolated value.
\<close>

datatype CommentText =
  AutomationAnalysis string
  | AutomatedFixCompleted string
  | AutomationFailed string

datatype NotionCall =
  UpdatePageStatus string QAStatus
  | AddComment string CommentText
  | UpdatePageProperties string string

datatype SlackMessage =
  NotifyStart NotionQAItem
  | NotifySuccess NotionQAItem PullRequest
  | NotifyError NotionQAItem JsError
  | NotifyNotActionable NotionQAItem string

datatype ExternalCall = NotionRequest NotionCall | SlackPost SlackMessage | AgentRun string

datatype OrchestratorEvent = QaCompleted string | SessionTimeoutForwarded string

record OrchestratorConfig =
  databaseId :: "string option"
  slackChannel :: "string option"
  config_projectConfig :: "ProjectConfig option"

text \<open>
  What one run of the pipeline meets outside the orchestrator: whether the tracker
  rejects a call and with what, whether a post to the chat channel fails, how long a
  call stays pending and which session timers (by handle, in order) the runtime fires
  while it is pending, the id \<^verbatim>\<open>generateSessionId\<close> returns, and the Step Result each
  agent's \<^verbatim>\<open>execute\<close> resolves to. The orchestrator builds every agent from
  \<^verbatim>\<open>{ agentType }\<close> alone, so three attempts are configured.
\<close>

record Environment =
  notion_fails :: "NotionCall \<Rightarrow> JsError option"
  slack_fails :: "SlackMessage \<Rightarrow> bool"
  latency :: "ExternalCall \<Rightarrow> nat"
  timers_during :: "ExternalCall \<Rightarrow> nat list"
  generated_id :: string
  analysis_result :: "QAAnalysis AgentResult"
  classification_result :: "ClassificationDecision AgentResult"
  code_result :: "CodeChanges AgentResult"
  pr_result :: "PullRequest AgentResult"

text \<open>
  The orchestrator with its collaborators: the session manager, the connection flag of
  the tracker client and the calls the tracker accepted, the notifier's \<open>enabled\<close>
  flag, the notifications handed to the notifier and those it posted, the agents whose
  \<^verbatim>\<open>execute\<close> was invoked, the events the orchestrator emitted, and the clock.
\<close>

record World =
  manager :: SessionManager
  orchestrator_config :: OrchestratorConfig
  notion_connected :: bool
  notion_log :: "NotionCall list"
  slack_enabled :: bool
  slack_notified :: "SlackMessage list"
  slack_posted :: "SlackMessage list"
  agents_run :: "string list"
  orchestrator_events :: "OrchestratorEvent list"
  clock :: int
  isRunning :: bool

definition new_Error :: "string \<Rightarrow> JsError" where
  "new_Error msg = \<lparr>err_message = msg, err_code = None, err_name = ''Error''\<rparr>"

text \<open>The handler \<^verbatim>\<open>setupEventHandlers\<close> registers re-emits the store's timeout events.\<close>

fun forward_timeouts :: "SessionEvent list \<Rightarrow> OrchestratorEvent list" where
  "forward_timeouts [] = []"
| "forward_timeouts (SessionTimeout sid # es) = SessionTimeoutForwarded sid # forward_timeouts es"
| "forward_timeouts (e # es) = forward_timeouts es"

definition fire_timers :: "nat list \<Rightarrow> int \<Rightarrow> SessionManager \<Rightarrow> SessionManager" where
  "fire_timers hs now m = foldl (\<lambda>acc h. fire_timer h now acc) m hs"

text \<open>An \<^verbatim>\<open>await\<close> on a pending external call: time passes, and the runtime may run the
  callbacks of session timers that are due.\<close>

definition awaiting :: "Environment \<Rightarrow> ExternalCall \<Rightarrow> World \<Rightarrow> World" where
  "awaiting env c w =
     (let w1 = w\<lparr>clock := clock w + int (latency env c)\<rparr>;
          m = fire_timers (timers_during env c) (clock w1) (manager w1)
      in w1\<lparr>manager := m,
            orchestrator_events := orchestrator_events w1 @
              forward_timeouts (drop (length (emitted (manager w1))) (emitted m))\<rparr>)"

definition not_connected :: JsError where
  "not_connected = new_Error ''Not connected to Notion MCP''"

text \<open>\<^verbatim>\<open>updatePageStatus\<close>, \<^verbatim>\<open>addComment\<close> and \<^verbatim>\<open>updatePageProperties\<close>: each throws
  when the client is not connected, awaits the tool call and rethrows its error.\<close>

definition notion_request :: "Environment \<Rightarrow> NotionCall \<Rightarrow> World \<Rightarrow> JsError option \<times> World" where
  "notion_request env c w =
     (if \<not> notion_connected w then (Some not_connected, w)
      else (let w1 = awaiting env (NotionRequest c) w
            in case notion_fails env c of
                 Some e \<Rightarrow> (Some e, w1)
               | None \<Rightarrow> (None, w1\<lparr>notion_log := notion_log w1 @ [c]\<rparr>)))"

text \<open>The \<^verbatim>\<open>notify\<close> methods: nothing when disabled; a failed post is logged and
  swallowed.\<close>

definition slack_notify :: "Environment \<Rightarrow> SlackMessage \<Rightarrow> World \<Rightarrow> World" where
  "slack_notify env m w =
     (let w0 = w\<lparr>slack_notified := slack_notified w @ [m]\<rparr>
      in if \<not> slack_enabled w0 then w0
         else (let w1 = awaiting env (SlackPost m) w0
               in if slack_fails env m then w1
                  else w1\<lparr>slack_posted := slack_posted w1 @ [m]\<rparr>))"

section \<open>Workflow driver (orchestrator/main.ts)\<close>

definition on_manager :: "(int \<Rightarrow> SessionManager \<Rightarrow> SessionManager) \<Rightarrow> World \<Rightarrow> World" where
  "on_manager f w = w\<lparr>manager := f (clock w) (manager w)\<rparr>"

definition run_agent :: "Environment \<Rightarrow> string \<Rightarrow> World \<Rightarrow> World" where
  "run_agent env name w = awaiting env (AgentRun name) (w\<lparr>agents_run := agents_run w @ [name]\<rparr>)"

text \<open>\<^verbatim>\<open>${result.error?.message}\<close>.\<close>

definition failure_text :: "'o AgentResult \<Rightarrow> string" where
  "failure_text r = (case error r of None \<Rightarrow> ''undefined'' | Some e \<Rightarrow> message e)"

definition handleNotActionable ::
  "Environment \<Rightarrow> NotionQAItem \<Rightarrow> string \<Rightarrow> World \<Rightarrow> JsError option \<times> World" where
  "handleNotActionable env item why w =
     (case notion_request env (UpdatePageStatus (qa_id item) NOT_ACTIONABLE) w of
        (Some e, w1) \<Rightarrow> (Some e, w1)
      | (None, w1) \<Rightarrow>
          (case notion_request env (AddComment (qa_id item) (AutomationAnalysis why)) w1 of
             (Some e, w2) \<Rightarrow> (Some e, w2)
           | (None, w2) \<Rightarrow> (None, slack_notify env (NotifyNotActionable item why) w2)))"

text \<open>\<^verbatim>\<open>completeQA\<close>; \<open>pr\<close> is \<^verbatim>\<open>prResult.data!\<close>, whose \<^verbatim>\<open>url\<close> is first read for the
  comment. A failure to set the PR URL property is caught.\<close>

definition completeQA ::
  "Environment \<Rightarrow> NotionQAItem \<Rightarrow> PullRequest option \<Rightarrow> World \<Rightarrow> JsError option \<times> World" where
  "completeQA env item pr w =
     (case notion_request env (UpdatePageStatus (qa_id item) DONE) w of
        (Some e, w1) \<Rightarrow> (Some e, w1)
      | (None, w1) \<Rightarrow>
          (case pr of
             None \<Rightarrow> (Some (reading_undefined ''url''), w1)
           | Some p \<Rightarrow>
               (case notion_request env
                       (AddComment (qa_id item) (AutomatedFixCompleted (pr_url p))) w1 of
                  (Some e, w2) \<Rightarrow> (Some e, w2)
                | (None, w2) \<Rightarrow>
                    (let w3 = snd (notion_request env
                                     (UpdatePageProperties (qa_id item) (pr_url p)) w2)
                     in (None, slack_notify env (NotifySuccess item p) w3)))))"

definition handleError ::
  "Environment \<Rightarrow> NotionQAItem \<Rightarrow> JsError \<Rightarrow> World \<Rightarrow> JsError option \<times> World" where
  "handleError env item err w =
     (case notion_request env (UpdatePageStatus (qa_id item) IN_REVIEW) w of
        (Some e, w1) \<Rightarrow> (Some e, w1)
      | (None, w1) \<Rightarrow>
          (case notion_request env
                  (AddComment (qa_id item) (AutomationFailed (err_message err))) w1 of
             (Some e, w2) \<Rightarrow> (Some e, w2)
           | (None, w2) \<Rightarrow> (None, slack_notify env (NotifyError item err) w2)))"

text \<open>
  The body of the \<^verbatim>\<open>try\<close> block of \<^verbatim>\<open>processQA\<close>, phase by phase, last phase first.
  Each part returns the error thrown out of the block, if any. An agent is built from
  \<^verbatim>\<open>this.sessionManager.get(session.id)!.context\<close>, which throws when the session is
  not in the store.
\<close>

definition phase_completion ::
  "Environment \<Rightarrow> NotionQAItem \<Rightarrow> string \<Rightarrow> PullRequest option \<Rightarrow> World \<Rightarrow> JsError option \<times> World"
where
  "phase_completion env item sid pr w =
     (let w1 = on_manager (updatePhase sid COMPLETION) w
      in case completeQA env item pr w1 of
           (Some e, w2) \<Rightarrow> (Some e, w2)
         | (None, w2) \<Rightarrow>
             (let w3 = on_manager (close sid (Some COMPLETED)) w2
              in (None, w3\<lparr>orchestrator_events :=
                             orchestrator_events w3 @ [QaCompleted (qa_id item)]\<rparr>)))"

definition phase_pr_creation ::
  "Environment \<Rightarrow> NotionQAItem \<Rightarrow> string \<Rightarrow> World \<Rightarrow> JsError option \<times> World" where
  "phase_pr_creation env item sid w =
     (let w1 = on_manager (updatePhase sid PR_CREATION) w
      in case get_session (manager w1) sid of
           None \<Rightarrow> (Some (reading_undefined ''context''), w1)
         | Some session \<Rightarrow>
             (let w2 = run_agent env ''pr-manager'' w1;
                  prResult = pr_result env
              in if \<not> success prResult
                 then (Some (new_Error (''PR creation failed: '' @ failure_text prResult)), w2)
                 else phase_completion env item sid (data prResult)
                        (on_manager
                           (updateContext sid (no_updates\<lparr>p_pullRequest := Some (data prResult)\<rparr>))
                           w2)))"

definition phase_implementation ::
  "Environment \<Rightarrow> NotionQAItem \<Rightarrow> string \<Rightarrow> World \<Rightarrow> JsError option \<times> World" where
  "phase_implementation env item sid w =
     (let w1 = on_manager (updatePhase sid IMPLEMENTATION) w
      in case get_session (manager w1) sid of
           None \<Rightarrow> (Some (reading_undefined ''context''), w1)
         | Some session \<Rightarrow>
             (let w2 = run_agent env ''code-agent'' w1;
                  codeResult = code_result env
              in if \<not> success codeResult
                 then (Some (new_Error (''Code implementation failed: ''
                               @ failure_text codeResult)), w2)
                 else phase_pr_creation env item sid
                        (on_manager
                           (updateContext sid (no_updates\<lparr>p_codeChanges := Some (data codeResult)\<rparr>))
                           w2)))"

definition phase_classification ::
  "Environment \<Rightarrow> NotionQAItem \<Rightarrow> string \<Rightarrow> World \<Rightarrow> JsError option \<times> World" where
  "phase_classification env item sid w =
     (let w1 = on_manager (updatePhase sid CLASSIFICATION) w
      in case get_session (manager w1) sid of
           None \<Rightarrow> (Some (reading_undefined ''context''), w1)
         | Some session \<Rightarrow>
             (let w2 = run_agent env ''action-classifier'' w1;
                  classificationResult = classification_result env
              in if \<not> success classificationResult
                 then (Some (new_Error (''Classification failed: ''
                               @ failure_text classificationResult)), w2)
                 else
                   (let w3 = on_manager
                               (updateContext sid
                                  (no_updates\<lparr>p_decision := Some (data classificationResult)\<rparr>))
                               w2
                    in case data classificationResult of
                         None \<Rightarrow> (Some (reading_undefined ''reason''), w3)
                       | Some d \<Rightarrow>
                           if \<not> shouldAct d
                           then (case handleNotActionable env item (reason d) w3 of
                                   (Some e, w4) \<Rightarrow> (Some e, w4)
                                 | (None, w4) \<Rightarrow>
                                     (None, on_manager (close sid (Some COMPLETED)) w4))
                           else phase_implementation env item sid w3)))"

definition phase_analysis ::
  "Environment \<Rightarrow> NotionQAItem \<Rightarrow> string \<Rightarrow> World \<Rightarrow> JsError option \<times> World" where
  "phase_analysis env item sid w =
     (let w1 = on_manager (updatePhase sid ANALYSIS) w
      in case get_session (manager w1) sid of
           None \<Rightarrow> (Some (reading_undefined ''context''), w1)
         | Some session \<Rightarrow>
             (let w2 = run_agent env ''qa-analyzer'' w1;
                  analysisResult = analysis_result env
              in if \<not> success analysisResult
                 then (Some (new_Error (''QA Analysis failed: '' @ failure_text analysisResult)), w2)
                 else phase_classification env item sid
                        (on_manager
                           (updateContext sid (no_updates\<lparr>p_analysis := Some (data analysisResult)\<rparr>))
                           w2)))"

definition try_block ::
  "Environment \<Rightarrow> NotionQAItem \<Rightarrow> string \<Rightarrow> World \<Rightarrow> JsError option \<times> World" where
  "try_block env item sid w =
     (case notion_request env (UpdatePageStatus (qa_id item) IN_PROGRESS) w of
        (Some e, w1) \<Rightarrow> (Some e, w1)
      | (None, w1) \<Rightarrow> phase_analysis env item sid (slack_notify env (NotifyStart item) w1))"

text \<open>\<^verbatim>\<open>processQA\<close>: the value is the error the returned promise rejects with, if any.\<close>

definition processQA :: "Environment \<Rightarrow> NotionQAItem \<Rightarrow> World \<Rightarrow> JsError option \<times> World" where
  "processQA env item w =
     (let sid = generated_id env;
          w1 = on_manager
                 (create sid item
                    (Some (no_updates\<lparr>p_projectConfig :=
                             Some (config_projectConfig (orchestrator_config w))\<rparr>))) w;
          w2 = on_manager (updateStatus sid RUNNING None) w1
      in case try_block env item sid w2 of
           (None, w3) \<Rightarrow> (None, w3)
         | (Some e, w3) \<Rightarrow>
             (Some e,
              on_manager
                (updateStatus sid FAILED
                   (Some \<lparr>message = err_message e, code = ''PROCESSING_ERROR'',
                           retryable = False\<rparr>)) w3))"

definition handleNewQA :: "Environment \<Rightarrow> NotionQAItem \<Rightarrow> World \<Rightarrow> JsError option \<times> World" where
  "handleNewQA env item w =
     (if qa_status item \<noteq> NOT_STARTED then (None, w)
      else case processQA env item w of
             (None, w1) \<Rightarrow> (None, w1)
           | (Some e, w1) \<Rightarrow> handleError env item e w1)"

text \<open>
  The polling callback. \<open>found\<close> is what \<^verbatim>\<open>queryDatabase\<close> settles with: an error, or
  the items, each paired with what its run will meet. The loop handles the items in
  order and leaves at the first handler that rejects; the callback catches that error
  and the query's, so a tick always ends normally and the interval timer stays armed.
\<close>

fun handle_items :: "(Environment \<times> NotionQAItem) list \<Rightarrow> World \<Rightarrow> JsError option \<times> World" where
  "handle_items [] w = (None, w)"
| "handle_items ((env, item) # rest) w =
     (case handleNewQA env item w of
        (Some e, w1) \<Rightarrow> (Some e, w1)
      | (None, w1) \<Rightarrow> handle_items rest w1)"

definition poll_tick :: "JsError + (Environment \<times> NotionQAItem) list \<Rightarrow> World \<Rightarrow> World" where
  "poll_tick found w =
     (if \<not> isRunning w then w
      else case found of
             Inl e \<Rightarrow> w
           | Inr items \<Rightarrow> snd (handle_items items w))"

section \<open>Auxiliary definitions\<close>

text \<open>Names for the proofs: the session a store operation writes back, the world at
  each stage of the pipeline, the outcomes the theorems about the driver state, and the
  values of the worked examples.\<close>

definition status_written ::
  "SessionStatus \<Rightarrow> SessionError option \<Rightarrow> int \<Rightarrow> AgentSession \<Rightarrow> AgentSession" where
  "status_written st err now session =
     (let x1 = session\<lparr>status := st,
                 session_context := (session_context session)\<lparr>updatedAt := now\<rparr>\<rparr>;
          x2 = (case err of None \<Rightarrow> x1 | Some e \<Rightarrow> x1\<lparr>session_error := Some e\<rparr>)
      in if st = COMPLETED \<or> st = FAILED then x2\<lparr>completedAt := Some now\<rparr> else x2)"

definition phase_written :: "WorkflowPhase \<Rightarrow> int \<Rightarrow> AgentSession \<Rightarrow> AgentSession" where
  "phase_written phase now session =
     (let x1 = session\<lparr>currentPhase := Some phase,
                 session_context := (session_context session)\<lparr>updatedAt := now\<rparr>\<rparr>
      in if phase \<in> set (completedPhases x1) then x1
         else x1\<lparr>completedPhases := completedPhases x1 @ [phase]\<rparr>)"

definition context_written :: "PartialContext \<Rightarrow> int \<Rightarrow> AgentSession \<Rightarrow> AgentSession" where
  "context_written u now session =
     session\<lparr>session_context := (spread (session_context session) u)\<lparr>updatedAt := now\<rparr>\<rparr>"

definition created_session ::
  "string \<Rightarrow> NotionQAItem \<Rightarrow> PartialContext option \<Rightarrow> int \<Rightarrow> AgentSession" where
  "created_session sid item additionalContext now =
     (let extra = (case additionalContext of None \<Rightarrow> no_updates | Some u \<Rightarrow> u);
          ctx = spread \<lparr>sessionId = sid, qaItem = item, projectId = None,
                  projectConfig = None, analysis = None, decision = None,
                  codeChanges = None, pullRequest = None, createdAt = now,
                  updatedAt = now\<rparr> extra
      in \<lparr>session_id = sid, qaItemId = qa_id item,
          session_projectId = or_keep (p_projectId extra) None,
          status = CREATED, session_context = ctx, startedAt = now,
          completedAt = None, session_error = None, currentPhase = None,
          completedPhases = []\<rparr>)"

definition demo_item :: NotionQAItem where
  "demo_item = \<lparr>qa_id = ''qa-1'', qa_url = ''https://notion.example/qa-1'',
     qa_title = ''login button unresponsive'', qa_description = ''nothing happens on click'',
     qa_status = NOT_STARTED, qa_reporter = ''alice''\<rparr>"

definition stamped :: "AgentSession \<Rightarrow> bool" where
  "stamped x \<longleftrightarrow> (status x = COMPLETED \<or> status x = FAILED \<longrightarrow> completedAt x \<noteq> None)"

fun creates :: "string \<Rightarrow> StoreOp \<Rightarrow> bool" where
  "creates sid (Create sid' item extra now) = (sid' = sid)"
| "creates sid other = False"

definition completed_or_failed :: "SessionManager \<Rightarrow> string \<Rightarrow> bool" where
  "completed_or_failed s sid =
     (case get_session s sid of
        None \<Rightarrow> False
      | Some y \<Rightarrow> status y = COMPLETED \<or> status y = FAILED)"



definition dns_error :: JsError where
  "dns_error =
     \<lparr>err_message = ''getaddrinfo ENOTFOUND api.notion.com'', err_code = Some ''ENOTFOUND'',
      err_name = ''Error''\<rparr>"

definition analyzer_config :: AgentConfig where
  "analyzer_config =
     new_BaseAgent \<lparr>in_agentType = ''qa-analyzer'', in_timeout = None, in_retries = None,
       in_model = None\<rparr>"

definition started :: "Environment \<Rightarrow> NotionQAItem \<Rightarrow> World \<Rightarrow> World" where
  "started env item w =
     on_manager (updateStatus (generated_id env) RUNNING None)
       (on_manager
          (create (generated_id env) item
             (Some (no_updates\<lparr>p_projectConfig :=
                      Some (config_projectConfig (orchestrator_config w))\<rparr>))) w)"

definition entered :: "Environment \<Rightarrow> NotionQAItem \<Rightarrow> World \<Rightarrow> World" where
  "entered env item w =
     slack_notify env (NotifyStart item)
       (snd (notion_request env (UpdatePageStatus (qa_id item) IN_PROGRESS) w))"

definition analysed :: "Environment \<Rightarrow> string \<Rightarrow> World \<Rightarrow> World" where
  "analysed env sid w =
     on_manager
       (updateContext sid (no_updates\<lparr>p_analysis := Some (data (analysis_result env))\<rparr>))
       (run_agent env ''qa-analyzer'' (on_manager (updatePhase sid ANALYSIS) w))"

definition classified :: "Environment \<Rightarrow> string \<Rightarrow> World \<Rightarrow> World" where
  "classified env sid w =
     on_manager
       (updateContext sid (no_updates\<lparr>p_decision := Some (data (classification_result env))\<rparr>))
       (run_agent env ''action-classifier'' (on_manager (updatePhase sid CLASSIFICATION) w))"

definition implemented :: "Environment \<Rightarrow> string \<Rightarrow> World \<Rightarrow> World" where
  "implemented env sid w =
     on_manager
       (updateContext sid (no_updates\<lparr>p_codeChanges := Some (data (code_result env))\<rparr>))
       (run_agent env ''code-agent'' (on_manager (updatePhase sid IMPLEMENTATION) w))"

definition failure_descriptor :: "JsError \<Rightarrow> SessionError" where
  "failure_descriptor e =
     \<lparr>message = err_message e, code = ''PROCESSING_ERROR'', retryable = False\<rparr>"

definition reports_failure ::
  "Environment \<Rightarrow> NotionQAItem \<Rightarrow> World \<Rightarrow> JsError \<Rightarrow> string list \<Rightarrow> bool" where
  "reports_failure env item w e invoked \<longleftrightarrow>
     fst (handleNewQA env item w) = None \<and>
     map_option status
       (get_session (manager (snd (handleNewQA env item w))) (generated_id env)) = Some FAILED \<and>
     map_option session_error
       (get_session (manager (snd (handleNewQA env item w))) (generated_id env))
       = Some (Some (failure_descriptor e)) \<and>
     agents_run (snd (handleNewQA env item w)) = agents_run w @ invoked \<and>
     notion_log (snd (handleNewQA env item w)) =
       notion_log w @ [UpdatePageStatus (qa_id item) IN_PROGRESS,
                       UpdatePageStatus (qa_id item) IN_REVIEW,
                       AddComment (qa_id item) (AutomationFailed (err_message e))] \<and>
     slack_notified (snd (handleNewQA env item w)) =
       slack_notified w @ [NotifyStart item, NotifyError item e] \<and>
     (slack_enabled w \<and> \<not> slack_fails env (NotifyError item e) \<longrightarrow>
        NotifyError item e \<in> set (slack_posted (snd (handleNewQA env item w)))) \<and>
     (\<forall>rest. handle_items ((env, item) # rest) w
               = handle_items rest (snd (handleNewQA env item w)))"

definition throws_after ::
  "Environment \<Rightarrow> NotionQAItem \<Rightarrow> World \<Rightarrow> JsError \<Rightarrow> string list \<Rightarrow> bool" where
  "throws_after env item w e invoked \<longleftrightarrow>
     (\<exists>W. try_block env item (generated_id env) (started env item w) = (Some e, W) \<and>
          agents_run W = agents_run w @ invoked \<and>
          notion_log W = notion_log w @ [UpdatePageStatus (qa_id item) IN_PROGRESS] \<and>
          slack_notified W = slack_notified w @ [NotifyStart item])"

definition stops_as_not_actionable ::
  "Environment \<Rightarrow> NotionQAItem \<Rightarrow> World \<Rightarrow> string \<Rightarrow> bool" where
  "stops_as_not_actionable env item w why \<longleftrightarrow>
     fst (handleNewQA env item w) = None \<and>
     map_option status
       (get_session (manager (snd (handleNewQA env item w))) (generated_id env))
       = Some COMPLETED \<and>
     last (emitted (manager (snd (handleNewQA env item w)))) = SessionClosed (generated_id env) \<and>
     agents_run (snd (handleNewQA env item w))
       = agents_run w @ [''qa-analyzer'', ''action-classifier''] \<and>
     notion_log (snd (handleNewQA env item w)) =
       notion_log w @ [UpdatePageStatus (qa_id item) IN_PROGRESS,
                       UpdatePageStatus (qa_id item) NOT_ACTIONABLE,
                       AddComment (qa_id item) (AutomationAnalysis why)] \<and>
     slack_notified (snd (handleNewQA env item w)) =
       slack_notified w @ [NotifyStart item, NotifyNotActionable item why] \<and>
     (slack_enabled w \<and> \<not> slack_fails env (NotifyNotActionable item why) \<longrightarrow>
        NotifyNotActionable item why \<in> set (slack_posted (snd (handleNewQA env item w))))"

definition demo_world :: World where
  "demo_world =
     \<lparr>manager = new_SessionManager 3600000,
      orchestrator_config = \<lparr>databaseId = None, slackChannel = None, config_projectConfig = None\<rparr>,
      notion_connected = True, notion_log = [], slack_enabled = True, slack_notified = [],
      slack_posted = [], agents_run = [], orchestrator_events = [], clock = 0,
      isRunning = True\<rparr>"

definition timed_out_analysis :: "QAAnalysis AgentResult" where
  "timed_out_analysis =
     \<lparr>success = False, data = None,
      error = Some \<lparr>message = ''Agent timeout after 300000ms'', code = ''AGENT_ERROR'',
                retryable = True\<rparr>,
      metadata = \<lparr>executionTime = 900000, retryCount = 2, meta_agentType = ''qa-analyzer''\<rparr>\<rparr>"

definition good_analysis :: "QAAnalysis AgentResult" where
  "good_analysis =
     \<lparr>success = True, data = Some \<lparr>analysis_summary = ''click handler is never bound''\<rparr>,
      error = None,
      metadata = \<lparr>executionTime = 1200, retryCount = 0, meta_agentType = ''qa-analyzer''\<rparr>\<rparr>"

definition declined :: "ClassificationDecision AgentResult" where
  "declined =
     \<lparr>success = True,
      data = Some \<lparr>shouldAct = False, reason = ''needs product decision''\<rparr>,
      error = None,
      metadata = \<lparr>executionTime = 800, retryCount = 0,
                   meta_agentType = ''action-classifier''\<rparr>\<rparr>"

definition good_changes :: "CodeChanges AgentResult" where
  "good_changes =
     \<lparr>success = True, data = Some \<lparr>changes_summary = ''bind the handler''\<rparr>, error = None,
      metadata = \<lparr>executionTime = 5000, retryCount = 0, meta_agentType = ''code-agent''\<rparr>\<rparr>"

definition good_pr :: "PullRequest AgentResult" where
  "good_pr =
     \<lparr>success = True,
      data = Some \<lparr>pr_url = ''https://git.example/pr/7'', pr_number = 7,
                pr_branch = ''fix/login'', pr_labels = []\<rparr>,
      error = None,
      metadata = \<lparr>executionTime = 700, retryCount = 0, meta_agentType = ''pr-manager''\<rparr>\<rparr>"

definition tracker_down :: JsError where
  "tracker_down = new_Error ''tracker unavailable''"

definition failing_env :: Environment where
  "failing_env =
     \<lparr>notion_fails = (\<lambda>c. None), slack_fails = (\<lambda>m. False), latency = (\<lambda>c. 100),
      timers_during = (\<lambda>c. []), generated_id = ''session-1'',
      analysis_result = timed_out_analysis, classification_result = declined,
      code_result = good_changes, pr_result = good_pr\<rparr>"

definition declining_env :: Environment where
  "declining_env =
     \<lparr>notion_fails = (\<lambda>c. None), slack_fails = (\<lambda>m. False), latency = (\<lambda>c. 100),
      timers_during = (\<lambda>c. []), generated_id = ''session-1'',
      analysis_result = good_analysis, classification_result = declined,
      code_result = good_changes, pr_result = good_pr\<rparr>"

definition no_review_env :: Environment where
  "no_review_env =
     failing_env\<lparr>notion_fails :=
       (\<lambda>c. if c = UpdatePageStatus ''qa-1'' IN_REVIEW then Some tracker_down else None)\<rparr>"

definition no_marking_env :: Environment where
  "no_marking_env =
     declining_env\<lparr>notion_fails :=
       (\<lambda>c. if c = UpdatePageStatus ''qa-1'' NOT_ACTIONABLE then Some tracker_down else None)\<rparr>"

section \<open>Properties of the session store\<close>

lemma sessions_emit [simp]: "sessions (emit e s) = sessions s"
  by (simp add: emit_def)

lemma sessions_clearTimeout [simp]: "sessions (clearTimeout sid s) = sessions s"
  by (simp add: clearTimeout_def split: option.splits)

lemma sessions_setupTimeout [simp]: "sessions (setupTimeout sid now s) = sessions s"
  by (simp add: setupTimeout_def)

lemma sessions_put_session [simp]:
  "sessions (put_session sid x s) = AList.update sid x (sessions s)"
  by (simp add: put_session_def)

lemma get_session_emit [simp]: "get_session (emit e s) = get_session s"
  by (simp add: get_session_def fun_eq_iff)

lemma get_session_clearTimeout [simp]: "get_session (clearTimeout sid s) = get_session s"
  by (simp add: get_session_def fun_eq_iff)

lemma get_session_setupTimeout [simp]: "get_session (setupTimeout sid now s) = get_session s"
  by (simp add: get_session_def fun_eq_iff)

lemma get_session_put_session [simp]:
  "get_session (put_session sid x s) = (get_session s)(sid \<mapsto> x)"
  by (simp add: get_session_def fun_eq_iff update_conv')

lemma set_update_subset: "set (AList.update k v al) \<subseteq> insert (k, v) (set al)"
  by (induction al) auto

lemma status_written_simps [simp]:
  "status (status_written st err now x) = st"
  "completedAt (status_written st err now x) =
     (if st = COMPLETED \<or> st = FAILED then Some now else completedAt x)"
  "session_error (status_written st err now x) =
     (case err of None \<Rightarrow> session_error x | Some e \<Rightarrow> Some e)"
  "currentPhase (status_written st err now x) = currentPhase x"
  "completedPhases (status_written st err now x) = completedPhases x"
  "session_id (status_written st err now x) = session_id x"
  "qaItemId (status_written st err now x) = qaItemId x"
  by (simp_all add: status_written_def Let_def split: option.splits)

lemma sessions_updateStatus:
  "sessions (updateStatus sid st err now s) =
     (case get_session s sid of
        None \<Rightarrow> sessions s
      | Some x \<Rightarrow> AList.update sid (status_written st err now x) (sessions s))"
  by (simp add: updateStatus_def status_written_def Let_def split: option.splits)

lemma get_session_updateStatus:
  "get_session (updateStatus sid st err now s) =
     (case get_session s sid of
        None \<Rightarrow> get_session s
      | Some x \<Rightarrow> (get_session s)(sid \<mapsto> status_written st err now x))"
  by (simp add: updateStatus_def status_written_def Let_def split: option.splits)

lemma emitted_updateStatus:
  "emitted (updateStatus sid st err now s) =
     (case get_session s sid of
        None \<Rightarrow> emitted s
      | Some x \<Rightarrow> emitted s @ [SessionUpdated sid])"
  by (simp add: updateStatus_def Let_def emit_def put_session_def clearTimeout_def
      split: option.splits)

lemma phase_written_simps [simp]:
  "status (phase_written phase now x) = status x"
  "completedAt (phase_written phase now x) = completedAt x"
  "session_error (phase_written phase now x) = session_error x"
  by (simp_all add: phase_written_def Let_def)

lemma context_written_simps [simp]:
  "status (context_written u now x) = status x"
  "completedAt (context_written u now x) = completedAt x"
  "session_error (context_written u now x) = session_error x"
  by (simp_all add: context_written_def)

lemma sessions_updatePhase:
  "sessions (updatePhase sid phase now s) =
     (case get_session s sid of
        None \<Rightarrow> sessions s
      | Some x \<Rightarrow> AList.update sid (phase_written phase now x) (sessions s))"
  by (simp add: updatePhase_def phase_written_def Let_def split: option.splits)

lemma sessions_updateContext:
  "sessions (updateContext sid u now s) =
     (case get_session s sid of
        None \<Rightarrow> sessions s
      | Some x \<Rightarrow> AList.update sid (context_written u now x) (sessions s))"
  by (simp add: updateContext_def context_written_def split: option.splits)

lemma sessions_close:
  "sessions (close sid st now s) =
     (case get_session s sid of
        None \<Rightarrow> sessions s
      | Some x \<Rightarrow>
          AList.update sid
            (status_written (case st of None \<Rightarrow> COMPLETED | Some v \<Rightarrow> v) None now x)
            (sessions s))"
  by (simp add: close_def Let_def sessions_updateStatus split: option.splits)

lemma sessions_timeout_callback:
  "sessions (timeout_callback sid now s) =
     (case get_session s sid of
        None \<Rightarrow> sessions s
      | Some x \<Rightarrow>
          if status x = RUNNING
          then AList.update sid (status_written TIMEOUT (Some timeout_error) now x) (sessions s)
          else sessions s)"
  by (simp add: timeout_callback_def sessions_updateStatus split: option.splits)

lemma get_session_timers_update [simp]:
  "get_session (s\<lparr>timers := m\<rparr>) = get_session s"
  by (simp add: get_session_def fun_eq_iff)

lemma sessions_fire_timer:
  "sessions (fire_timer h now s) =
     (case timers s h of
        None \<Rightarrow> sessions s
      | Some (sid, due) \<Rightarrow>
          if due \<le> now then
            (case get_session s sid of
               None \<Rightarrow> sessions s
             | Some x \<Rightarrow>
                 if status x = RUNNING
                 then AList.update sid (status_written TIMEOUT (Some timeout_error) now x)
                        (sessions s)
                 else sessions s)
          else sessions s)"
  by (simp add: fire_timer_def sessions_timeout_callback split: option.splits)

lemma created_session_simps [simp]:
  "status (created_session sid item extra now) = CREATED"
  "completedAt (created_session sid item extra now) = None"
  "session_error (created_session sid item extra now) = None"
  by (simp_all add: created_session_def Let_def)

lemma sessions_create:
  "sessions (create sid item extra now s) =
     AList.update sid (created_session sid item extra now) (sessions s)"
  by (simp add: create_def created_session_def Let_def)

subsection \<open>Map well-formedness\<close>

lemma foldl_delete_filter:
  "foldl (\<lambda>m (sid, x). if P x then AList.delete sid m else m) m xs =
     filter (\<lambda>p. fst p \<notin> fst ` {q \<in> set xs. P (snd q)}) m"
proof (induction xs arbitrary: m)
  case Nil
  show ?case by simp
next
  case (Cons a xs)
  obtain k x where a: "a = (k, x)" by (cases a)
  show ?case
  proof (cases "P x")
    case True
    have "{q \<in> set (a # xs). P (snd q)} = insert (k, x) {q \<in> set xs. P (snd q)}"
      using True a by auto
    then show ?thesis
      using True a Cons.IH [of "AList.delete k m"]
      by (auto simp: AList.delete_eq intro!: filter_cong)
  next
    case False
    have "{q \<in> set (a # xs). P (snd q)} = {q \<in> set xs. P (snd q)}"
      using False a by auto
    then show ?thesis
      using False a Cons.IH [of m] by simp
  qed
qed

lemma sessions_cleanup:
  "sessions (cleanup olderThan now s) =
     filter (\<lambda>p. fst p \<notin> fst ` {q \<in> set (sessions s). expired (now - olderThan) (snd q)})
       (sessions s)"
  by (simp add: cleanup_def Let_def foldl_delete_filter)

lemma distinct_apply_op:
  "distinct (map fst (sessions s)) \<Longrightarrow> distinct (map fst (sessions (apply_op x s)))"
  by (cases x) (auto simp: sessions_create sessions_updateStatus sessions_updatePhase sessions_updateContext
      sessions_close sessions_fire_timer sessions_cleanup distinct_update distinct_map_filter
      split: option.splits)

lemma distinct_run_ops:
  "distinct (map fst (sessions s)) \<Longrightarrow> distinct (map fst (sessions (run_ops ops s)))"
  unfolding run_ops_def
  by (induction ops arbitrary: s) (simp_all add: distinct_apply_op)

lemma distinct_reachable: "distinct (map fst (sessions (run_ops ops (new_SessionManager t))))"
  by (rule distinct_run_ops) (simp add: new_SessionManager_def)

lemma length_filter_disj:
  "(\<And>x. x \<in> set xs \<Longrightarrow> \<not> (P x \<and> Q x)) \<Longrightarrow>
   length (filter (\<lambda>x. P x \<or> Q x) xs) = length (filter P xs) + length (filter Q xs)"
  by (induction xs) auto

text \<open>
  Claim C10. \<^verbatim>\<open>getStats().active\<close> counts the sessions whose status is RUNNING, while
  \<^verbatim>\<open>getActiveSessionCount\<close> counts those whose status is RUNNING or CREATED: the second
  count is the first plus the number of CREATED sessions, so as soon as one session is
  CREATED the statistics report strictly fewer active sessions.
\<close>

theorem getStats_active_excludes_created:
  "getActiveSessionCount s =
     active (getStats s) + length (filter (\<lambda>x. status x = CREATED) (session_values s)) \<and>
   ((\<exists>x \<in> set (session_values s). status x = CREATED) \<longrightarrow>
      active (getStats s) < getActiveSessionCount s)"
proof -
  let ?xs = "session_values s"
  have eq: "length (filter (\<lambda>x. status x = RUNNING \<or> status x = CREATED) ?xs) =
      length (filter (\<lambda>x. status x = RUNNING) ?xs) +
      length (filter (\<lambda>x. status x = CREATED) ?xs)"
    by (rule length_filter_disj) simp
  have pos: "0 < length (filter (\<lambda>x. status x = CREATED) ?xs)"
    if "\<exists>x \<in> set ?xs. status x = CREATED"
    using that by (simp add: length_greater_0_conv filter_empty_conv)
  show ?thesis
    using eq pos by (auto simp: getActiveSessionCount_def getActiveSessions_def getStats_def Let_def)
qed

theorem getStats_active_excludes_created_witness:
  "(\<exists>x \<in> set (session_values (create ''s1'' demo_item None 0 (new_SessionManager 3600000))).
      status x = CREATED) \<and>
   active (getStats (create ''s1'' demo_item None 0 (new_SessionManager 3600000)))
     < getActiveSessionCount (create ''s1'' demo_item None 0 (new_SessionManager 3600000))"
proof -
  let ?s = "create ''s1'' demo_item None 0 (new_SessionManager 3600000)"
  have vals: "session_values ?s = [created_session ''s1'' demo_item None 0]"
    by (simp add: session_values_def sessions_create new_SessionManager_def)
  have ex: "\<exists>x \<in> set (session_values ?s). status x = CREATED"
    by (simp add: vals)
  show ?thesis
    using ex getStats_active_excludes_created [of ?s] by blast
qed

subsection \<open>cleanup\<close>

lemma map_of_filter_distinct:
  "distinct (map fst al) \<Longrightarrow> map_of al k = Some x \<Longrightarrow>
   map_of (filter P al) k = (if P (k, x) then Some x else None)"
proof (induction al)
  case Nil
  then show ?case by simp
next
  case (Cons a al)
  obtain k' x' where a: "a = (k', x')" by (cases a)
  show ?case
  proof (cases "k' = k")
    case True
    have "k \<notin> fst ` set al" using Cons.prems(1) a True by auto
    then have "map_of (filter P al) k = None"
      by (auto simp: map_of_eq_None_iff)
    then show ?thesis using Cons.prems a True by auto
  next
    case False
    then show ?thesis using Cons a by auto
  qed
qed

lemma expired_key_iff:
  assumes "distinct (map fst al)" and "map_of al k = Some x"
  shows "k \<in> fst ` {q \<in> set al. E (snd q)} \<longleftrightarrow> E x"
proof
  assume "k \<in> fst ` {q \<in> set al. E (snd q)}"
  then obtain y where y: "(k, y) \<in> set al" "E y" by auto
  have "map_of al k = Some y" using assms(1) y(1) by simp
  then show "E x" using assms(2) y(2) by simp
next
  assume "E x"
  moreover have "(k, x) \<in> set al" using assms(2) by (rule map_of_SomeD)
  ultimately show "k \<in> fst ` {q \<in> set al. E (snd q)}" by force
qed

lemma get_session_cleanup:
  assumes "distinct (map fst (sessions s))" and "get_session s sid = Some x"
  shows "get_session (cleanup olderThan now s) sid =
           (if expired (now - olderThan) x then None else Some x)"
  using assms map_of_filter_distinct [OF assms(1), of sid x]
    expired_key_iff [OF assms(1), of sid x "expired (now - olderThan)"]
  by (simp add: get_session_def sessions_cleanup)

lemma apply_op_keeps_session:
  assumes "\<not> is_cleanup x" and "get_session s sid \<noteq> None"
  shows "get_session (apply_op x s) sid \<noteq> None"
  using assms
  by (cases x)
    (auto simp: get_session_def sessions_create sessions_updateStatus sessions_updatePhase
      sessions_updateContext sessions_close sessions_fire_timer update_conv'
      split: option.splits)

text \<open>
  Claim C8. In a store reached by any sequence of store operations, \<^verbatim>\<open>cleanup(maxAge)\<close>
  at time \<open>now\<close> removes the session stored under an id if and only if its status is
  COMPLETED or FAILED and its \<open>completedAt\<close> is set and lies more than \<open>maxAge\<close> before
  \<open>now\<close>; a session that stays is left as it was; a session whose status is TIMEOUT,
  CREATED or RUNNING always stays; and no other operation removes an id from the store
  (\<^verbatim>\<open>create\<close> with an id already present replaces the entry under that id).
\<close>

theorem cleanup_removes_iff:
  assumes "s = run_ops ops (new_SessionManager t)" and "get_session s sid = Some x"
  shows "(get_session (cleanup maxAge now s) sid = None \<longleftrightarrow>
            (status x = COMPLETED \<or> status x = FAILED) \<and>
            (\<exists>c. completedAt x = Some c \<and> maxAge < now - c)) \<and>
         (get_session (cleanup maxAge now s) sid \<noteq> None \<longrightarrow>
            get_session (cleanup maxAge now s) sid = Some x) \<and>
         (status x = TIMEOUT \<or> status x = CREATED \<or> status x = RUNNING \<longrightarrow>
            get_session (cleanup maxAge now s) sid = Some x) \<and>
         (\<forall>other. \<not> is_cleanup other \<longrightarrow> get_session (apply_op other s) sid \<noteq> None)"
proof -
  have d: "distinct (map fst (sessions s))"
    using assms(1) by (simp add: distinct_reachable)
  have c: "get_session (cleanup maxAge now s) sid =
      (if expired (now - maxAge) x then None else Some x)"
    by (rule get_session_cleanup [OF d assms(2)])
  have e: "expired (now - maxAge) x \<longleftrightarrow>
      (status x = COMPLETED \<or> status x = FAILED) \<and>
      (\<exists>c. completedAt x = Some c \<and> maxAge < now - c)"
    by (auto simp: expired_def split: option.splits)
  have k: "\<forall>other. \<not> is_cleanup other \<longrightarrow> get_session (apply_op other s) sid \<noteq> None"
    using apply_op_keeps_session [of _ s sid] assms(2) by simp
  show ?thesis
    using c e k by auto
qed

lemma get_session_create:
  "get_session (create sid item extra now s) =
     (get_session s)(sid \<mapsto> created_session sid item extra now)"
  by (rule ext) (simp add: get_session_def sessions_create update_conv')

lemma get_session_close:
  "get_session (close sid st now s) =
     (case get_session s sid of
        None \<Rightarrow> get_session s
      | Some x \<Rightarrow>
          (get_session s)(sid \<mapsto>
             status_written (case st of None \<Rightarrow> COMPLETED | Some v \<Rightarrow> v) None now x))"
  by (rule ext) (simp add: get_session_def sessions_close update_conv' split: option.splits)

lemma get_session_fire_timer:
  "get_session (fire_timer h now s) =
     (case timers s h of
        None \<Rightarrow> get_session s
      | Some (sid, due) \<Rightarrow>
          if due \<le> now then
            (case get_session s sid of
               None \<Rightarrow> get_session s
             | Some x \<Rightarrow>
                 if status x = RUNNING
                 then (get_session s)(sid \<mapsto>
                        status_written TIMEOUT (Some timeout_error) now x)
                 else get_session s)
          else get_session s)"
  by (rule ext) (simp add: get_session_def sessions_fire_timer update_conv' split: option.splits)

lemma run_ops_Nil [simp]: "run_ops [] s = s"
  by (simp add: run_ops_def)

lemma run_ops_Cons [simp]: "run_ops (x # xs) s = run_ops xs (apply_op x s)"
  by (simp add: run_ops_def)

theorem cleanup_removes_iff_witness:
  "get_session (run_ops [Create ''s1'' demo_item None 0, Close ''s1'' None 10]
      (new_SessionManager 3600000)) ''s1''
     = Some (status_written COMPLETED None 10 (created_session ''s1'' demo_item None 0)) \<and>
   get_session (cleanup 100 200
      (run_ops [Create ''s1'' demo_item None 0, Close ''s1'' None 10]
        (new_SessionManager 3600000))) ''s1'' = None \<and>
   get_session (cleanup 100 50
      (run_ops [Create ''s1'' demo_item None 0, Close ''s1'' None 10]
        (new_SessionManager 3600000))) ''s1'' \<noteq> None"
proof -
  let ?c = "created_session ''s1'' demo_item None 0"
  let ?s1 = "create ''s1'' demo_item None 0 (new_SessionManager 3600000)"
  let ?s = "run_ops [Create ''s1'' demo_item None 0, Close ''s1'' None 10]
      (new_SessionManager 3600000)"
  let ?x = "status_written COMPLETED None 10 ?c"
  have g1: "get_session ?s1 ''s1'' = Some ?c"
    by (simp add: get_session_create)
  have "get_session (close ''s1'' None 10 ?s1) ''s1'' = Some ?x"
    by (simp add: get_session_close g1)
  then have g: "get_session ?s ''s1'' = Some ?x"
    by simp
  have st: "status ?x = COMPLETED" and ca: "completedAt ?x = Some 10"
    by simp_all
  have a: "get_session (cleanup 100 200 ?s) ''s1'' = None"
    using cleanup_removes_iff [OF refl g, of 100 200, THEN conjunct1] st ca by simp
  have b: "get_session (cleanup 100 50 ?s) ''s1'' \<noteq> None"
    using cleanup_removes_iff [OF refl g, of 100 50, THEN conjunct1] st ca by simp
  show ?thesis
    using g a b by blast
qed

subsection \<open>completedAt\<close>

lemma all_update:
  "\<forall>p \<in> set al. Q (snd p) \<Longrightarrow> Q v \<Longrightarrow> \<forall>p \<in> set (AList.update k v al). Q (snd p)"
  using set_update_subset [of k v al] by auto

lemma stamped_stored:
  assumes "\<forall>p \<in> set (sessions s). Q (snd p)" and "get_session s sid = Some x"
  shows "Q x"
proof -
  have "(sid, x) \<in> set (sessions s)"
    using assms(2) unfolding get_session_def by (rule map_of_SomeD)
  then show ?thesis
    using assms(1) by force
qed

lemma stamped_created [simp]: "stamped (created_session sid item extra now)"
  by (simp add: stamped_def)

lemma stamped_status_written [simp]: "stamped x \<Longrightarrow> stamped (status_written st err now x)"
  by (simp add: stamped_def)

lemma stamped_phase_written [simp]: "stamped x \<Longrightarrow> stamped (phase_written phase now x)"
  by (simp add: stamped_def)

lemma stamped_context_written [simp]: "stamped x \<Longrightarrow> stamped (context_written u now x)"
  by (simp add: stamped_def)

lemma stamped_apply_op:
  assumes "\<forall>p \<in> set (sessions s). stamped (snd p)"
  shows "\<forall>p \<in> set (sessions (apply_op x s)). stamped (snd p)"
proof -
  have upd: "\<forall>p \<in> set (AList.update sid v (sessions s)). stamped (snd p)"
    if "stamped v" for sid v
    using assms that by (rule all_update)
  have old: "stamped y" if "get_session s sid = Some y" for sid y
    using assms that by (rule stamped_stored)
  show ?thesis
  proof (cases x)
    case (Create sid item extra now)
    then show ?thesis
      using upd [OF stamped_created] by (simp add: sessions_create)
  next
    case (UpdateStatus sid st err now)
    then show ?thesis
      using assms old [of sid]
      by (cases "get_session s sid") (auto simp: sessions_updateStatus intro!: upd)
  next
    case (UpdatePhase sid phase now)
    then show ?thesis
      using assms old [of sid]
      by (cases "get_session s sid") (auto simp: sessions_updatePhase intro!: upd)
  next
    case (UpdateContext sid u now)
    then show ?thesis
      using assms old [of sid]
      by (cases "get_session s sid") (auto simp: sessions_updateContext intro!: upd)
  next
    case (Close sid st now)
    then show ?thesis
      using assms old [of sid]
      by (cases "get_session s sid") (auto simp: sessions_close intro!: upd)
  next
    case (Cleanup olderThan now)
    then show ?thesis
      using assms by (simp add: sessions_cleanup)
  next
    case (TimerFires h now)
    show ?thesis
    proof (cases "timers s h")
      case None
      then show ?thesis
        using assms TimerFires by (simp add: sessions_fire_timer)
    next
      case (Some a)
      obtain sid due where a: "a = (sid, due)" by (cases a)
      show ?thesis
        using assms old [of sid] TimerFires Some a
        by (cases "get_session s sid") (auto simp: sessions_fire_timer intro!: upd)
    qed
  qed
qed

lemma stamped_run_ops:
  "\<forall>p \<in> set (sessions s). stamped (snd p) \<Longrightarrow>
   \<forall>p \<in> set (sessions (run_ops ops s)). stamped (snd p)"
proof (induction ops arbitrary: s)
  case Nil
  then show ?case by simp
next
  case (Cons a ops)
  have "\<forall>p \<in> set (sessions (apply_op a s)). stamped (snd p)"
    using Cons.prems by (rule stamped_apply_op)
  then show ?case
    using Cons.IH [of "apply_op a s"] by simp
qed

lemma run_ops_append: "run_ops (pre @ post) s = run_ops post (run_ops pre s)"
  by (simp add: run_ops_def)

lemma get_session_updatePhase:
  "get_session (updatePhase sid phase now s) =
     (case get_session s sid of
        None \<Rightarrow> get_session s
      | Some x \<Rightarrow> (get_session s)(sid \<mapsto> phase_written phase now x))"
  by (rule ext) (simp add: get_session_def sessions_updatePhase update_conv' split: option.splits)

lemma get_session_updateContext:
  "get_session (updateContext sid u now s) =
     (case get_session s sid of
        None \<Rightarrow> get_session s
      | Some x \<Rightarrow> (get_session s)(sid \<mapsto> context_written u now x))"
  by (rule ext) (simp add: get_session_def sessions_updateContext update_conv' split: option.splits)

lemma map_of_filter_keys:
  "map_of (filter (\<lambda>p. fst p \<notin> K) al) k = (if k \<in> K then None else map_of al k)"
  by (induction al) auto

lemma get_session_cleanup_Some:
  "get_session (cleanup olderThan now s) sid = Some x \<Longrightarrow> get_session s sid = Some x"
  by (simp add: get_session_def sessions_cleanup map_of_filter_keys split: if_splits)

text \<open>
  One operation that does not create the session under \<open>sid\<close>: a session found under
  \<open>sid\<close> afterwards was there before, and its \<open>completedAt\<close> is the one it had, unless the
  operation has just marked it COMPLETED or FAILED and stamped it.
\<close>

lemma completedAt_step:
  assumes "\<not> creates sid a" and "get_session (apply_op a s) sid = Some x"
  shows "\<exists>y. get_session s sid = Some y \<and>
           (completedAt x = completedAt y \<or>
            (status x = COMPLETED \<or> status x = FAILED) \<and> completedAt x \<noteq> None)"
proof (cases a)
  case (Create sid' item extra now)
  then show ?thesis
    using assms by (auto simp: get_session_create split: if_splits)
next
  case (UpdateStatus sid' st err now)
  then show ?thesis
    using assms by (auto simp: get_session_updateStatus split: option.splits if_splits)
next
  case (UpdatePhase sid' phase now)
  then show ?thesis
    using assms by (auto simp: get_session_updatePhase split: option.splits if_splits)
next
  case (UpdateContext sid' u now)
  then show ?thesis
    using assms by (auto simp: get_session_updateContext split: option.splits if_splits)
next
  case (Close sid' st now)
  then show ?thesis
    using assms by (auto simp: get_session_close split: option.splits if_splits)
next
  case (Cleanup olderThan now)
  then show ?thesis
    using assms get_session_cleanup_Some [of olderThan now s sid x] by simp
next
  case (TimerFires h now)
  then show ?thesis
    using assms by (auto simp: get_session_fire_timer split: option.splits if_splits)
qed

lemma completedAt_kept:
  assumes "\<forall>a \<in> set post. \<not> creates sid a" and "get_session (run_ops post s) sid = Some x"
  shows "\<exists>y. get_session s sid = Some y \<and> (completedAt y \<noteq> None \<longrightarrow> completedAt x \<noteq> None)"
  using assms
proof (induction post arbitrary: s)
  case Nil
  then show ?case by simp
next
  case (Cons a post)
  have "\<forall>a \<in> set post. \<not> creates sid a" and na: "\<not> creates sid a"
    using Cons.prems(1) by simp_all
  moreover have "get_session (run_ops post (apply_op a s)) sid = Some x"
    using Cons.prems(2) by simp
  ultimately obtain z where z: "get_session (apply_op a s) sid = Some z"
    and zx: "completedAt z \<noteq> None \<longrightarrow> completedAt x \<noteq> None"
    using Cons.IH [of "apply_op a s"] by blast
  obtain y where y: "get_session s sid = Some y"
    and yz: "completedAt z = completedAt y \<or> completedAt z \<noteq> None"
    using completedAt_step [OF na z] by blast
  show ?case
    using y yz zx by auto
qed

lemma completedAt_has_cause:
  assumes "get_session (run_ops ops (new_SessionManager t)) sid = Some x"
    and "completedAt x \<noteq> None"
  shows "\<exists>pre post. ops = pre @ post \<and>
           completed_or_failed (run_ops pre (new_SessionManager t)) sid \<and>
           (\<forall>a \<in> set post. \<not> creates sid a)"
  using assms
proof (induction ops arbitrary: x rule: rev_induct)
  case Nil
  then show ?case
    by (simp add: get_session_def new_SessionManager_def)
next
  case (snoc a ops)
  let ?s = "run_ops ops (new_SessionManager t)"
  have x: "get_session (apply_op a ?s) sid = Some x"
    using snoc.prems(1) by (simp add: run_ops_append)
  show ?case
  proof (cases "status x = COMPLETED \<or> status x = FAILED")
    case True
    then have "completed_or_failed (run_ops (ops @ [a]) (new_SessionManager t)) sid"
      using snoc.prems(1) by (simp add: completed_or_failed_def)
    then have "ops @ [a] = (ops @ [a]) @ [] \<and>
        completed_or_failed (run_ops (ops @ [a]) (new_SessionManager t)) sid \<and>
        (\<forall>b \<in> set []. \<not> creates sid b)"
      by simp
    then show ?thesis by blast
  next
    case False
    have na: "\<not> creates sid a"
    proof
      assume "creates sid a"
      then obtain item extra now where "a = Create sid item extra now"
        by (cases a) auto
      then have "x = created_session sid item extra now"
        using x by (simp add: get_session_create)
      then show False
        using snoc.prems(2) by simp
    qed
    obtain y where y: "get_session ?s sid = Some y" and "completedAt x = completedAt y"
      using completedAt_step [OF na x] False by blast
    then have "completedAt y \<noteq> None"
      using snoc.prems(2) by simp
    then obtain pre post where pp: "ops = pre @ post"
      "completed_or_failed (run_ops pre (new_SessionManager t)) sid"
      "\<forall>b \<in> set post. \<not> creates sid b"
      using snoc.IH [OF y] by blast
    have "ops @ [a] = pre @ (post @ [a]) \<and>
        completed_or_failed (run_ops pre (new_SessionManager t)) sid \<and>
        (\<forall>b \<in> set (post @ [a]). \<not> creates sid b)"
      using pp na by simp
    then show ?thesis by blast
  qed
qed

text \<open>
  Claim C1, as amended. After any sequence of store operations (create, updateStatus,
  updatePhase, updateContext, close, cleanup, a session timer firing), a session of the
  store has its \<open>completedAt\<close> set if and only if its status is COMPLETED or FAILED, or
  was COMPLETED or FAILED at some moment since the session was created under its id
  and has been changed since. In particular every session whose status is COMPLETED or
  FAILED has its \<open>completedAt\<close> set, and a session that never was COMPLETED or FAILED,
  a timed out one included, has none.
\<close>

theorem completedAt_iff_completed_or_failed_since_created:
  assumes "get_session (run_ops ops (new_SessionManager t)) sid = Some x"
  shows "(status x = COMPLETED \<or> status x = FAILED \<longrightarrow> completedAt x \<noteq> None) \<and>
         (completedAt x \<noteq> None \<longleftrightarrow>
            (\<exists>pre post. ops = pre @ post \<and>
               completed_or_failed (run_ops pre (new_SessionManager t)) sid \<and>
               (\<forall>a \<in> set post. \<not> creates sid a)))"
proof (intro conjI impI iffI)
  have "\<forall>p \<in> set (sessions (run_ops ops (new_SessionManager t))). stamped (snd p)"
    by (rule stamped_run_ops) (simp add: new_SessionManager_def)
  then have "stamped x"
    using assms by (rule stamped_stored)
  then show "completedAt x \<noteq> None" if "status x = COMPLETED \<or> status x = FAILED"
    using that by (simp add: stamped_def)
next
  assume "completedAt x \<noteq> None"
  with assms show "\<exists>pre post. ops = pre @ post \<and>
      completed_or_failed (run_ops pre (new_SessionManager t)) sid \<and>
      (\<forall>a \<in> set post. \<not> creates sid a)"
    by (rule completedAt_has_cause)
next
  assume "\<exists>pre post. ops = pre @ post \<and>
      completed_or_failed (run_ops pre (new_SessionManager t)) sid \<and>
      (\<forall>a \<in> set post. \<not> creates sid a)"
  then obtain pre post where ops: "ops = pre @ post"
    and fin: "completed_or_failed (run_ops pre (new_SessionManager t)) sid"
    and nc: "\<forall>a \<in> set post. \<not> creates sid a"
    by blast
  let ?s = "run_ops pre (new_SessionManager t)"
  have "get_session (run_ops post ?s) sid = Some x"
    using assms ops by (simp add: run_ops_append)
  then obtain y where y: "get_session ?s sid = Some y"
    and keep: "completedAt y \<noteq> None \<longrightarrow> completedAt x \<noteq> None"
    using completedAt_kept [OF nc] by blast
  have "\<forall>p \<in> set (sessions ?s). stamped (snd p)"
    by (rule stamped_run_ops) (simp add: new_SessionManager_def)
  then have "stamped y"
    using y by (rule stamped_stored)
  moreover have "status y = COMPLETED \<or> status y = FAILED"
    using fin y by (simp add: completed_or_failed_def)
  ultimately have "completedAt y \<noteq> None"
    by (simp add: stamped_def)
  then show "completedAt x \<noteq> None"
    using keep by simp
qed

theorem completedAt_iff_completed_or_failed_since_created_witness:
  "get_session (run_ops [Create ''s1'' demo_item None 0, Close ''s1'' (Some FAILED) 10,
        UpdateStatus ''s1'' RUNNING None 11] (new_SessionManager 3600000)) ''s1''
     = Some (status_written RUNNING None 11
         (status_written FAILED None 10 (created_session ''s1'' demo_item None 0))) \<and>
   completedAt (status_written RUNNING None 11
         (status_written FAILED None 10 (created_session ''s1'' demo_item None 0))) = Some 10 \<and>
   (\<exists>pre post.
      [Create ''s1'' demo_item None 0, Close ''s1'' (Some FAILED) 10,
        UpdateStatus ''s1'' RUNNING None 11] = pre @ post \<and>
      completed_or_failed (run_ops pre (new_SessionManager 3600000)) ''s1'' \<and>
      (\<forall>a \<in> set post. \<not> creates ''s1'' a)) \<and>
   get_session (run_ops [Create ''s1'' demo_item None 0, Close ''s1'' (Some FAILED) 10]
        (new_SessionManager 3600000)) ''s1''
     = Some (status_written FAILED None 10 (created_session ''s1'' demo_item None 0)) \<and>
   completedAt (status_written FAILED None 10 (created_session ''s1'' demo_item None 0)) \<noteq> None"
proof -
  let ?ops = "[Create ''s1'' demo_item None 0, Close ''s1'' (Some FAILED) 10,
        UpdateStatus ''s1'' RUNNING None 11]"
  let ?ops2 = "[Create ''s1'' demo_item None 0, Close ''s1'' (Some FAILED) 10]"
  let ?c = "created_session ''s1'' demo_item None 0"
  let ?s1 = "create ''s1'' demo_item None 0 (new_SessionManager 3600000)"
  let ?s2 = "close ''s1'' (Some FAILED) 10 ?s1"
  let ?y = "status_written FAILED None 10 ?c"
  let ?x = "status_written RUNNING None 11 ?y"
  have g1: "get_session ?s1 ''s1'' = Some ?c"
    by (simp add: get_session_create)
  have g2: "get_session ?s2 ''s1'' = Some ?y"
    by (simp add: get_session_close g1)
  have g3: "get_session (updateStatus ''s1'' RUNNING None 11 ?s2) ''s1'' = Some ?x"
    by (simp add: get_session_updateStatus g2)
  have h2: "get_session (run_ops ?ops2 (new_SessionManager 3600000)) ''s1'' = Some ?y"
    using g2 by simp
  have h3: "get_session (run_ops ?ops (new_SessionManager 3600000)) ''s1'' = Some ?x"
    using g3 by simp
  have c3: "completedAt ?x = Some 10"
    by simp
  have failed: "status ?y = COMPLETED \<or> status ?y = FAILED"
    by simp
  have "\<exists>pre post. ?ops = pre @ post \<and>
      completed_or_failed (run_ops pre (new_SessionManager 3600000)) ''s1'' \<and>
      (\<forall>a \<in> set post. \<not> creates ''s1'' a)"
    using completedAt_iff_completed_or_failed_since_created [OF h3] c3 by simp
  moreover have "completedAt ?y \<noteq> None"
    using completedAt_iff_completed_or_failed_since_created [OF h2] failed by blast
  ultimately show ?thesis
    using h2 h3 c3 by blast
qed

lemma timers_create:
  "timers (create sid item extra now s) =
     (timers s)(next_handle s \<mapsto> (sid, now + defaultTimeout s))"
  by (simp add: create_def Let_def emit_def setupTimeout_def put_session_def)

lemma timers_updateStatus_open:
  "st \<noteq> COMPLETED \<Longrightarrow> st \<noteq> FAILED \<Longrightarrow> timers (updateStatus sid st err now s) = timers s"
  by (simp add: updateStatus_def Let_def emit_def put_session_def split: option.splits)

text \<open>
  Claim C1 as stated fails in both directions. A session created, marked RUNNING and
  then timed out by its timer has status TIMEOUT and no \<open>completedAt\<close>: \<^verbatim>\<open>updateStatus\<close>
  stamps the completion time for COMPLETED and FAILED only. A session closed and then
  marked RUNNING again keeps the \<open>completedAt\<close> of the close: nothing clears it.
\<close>

theorem completedAt_iff_terminal_counterexample:
  "map_option status
     (get_session (run_ops [Create ''s1'' demo_item None 0, UpdateStatus ''s1'' RUNNING None 1,
        TimerFires 0 3600000] (new_SessionManager 3600000)) ''s1'') = Some TIMEOUT \<and>
   map_option completedAt
     (get_session (run_ops [Create ''s1'' demo_item None 0, UpdateStatus ''s1'' RUNNING None 1,
        TimerFires 0 3600000] (new_SessionManager 3600000)) ''s1'') = Some None \<and>
   map_option status
     (get_session (run_ops [Create ''s1'' demo_item None 0, Close ''s1'' None 5,
        UpdateStatus ''s1'' RUNNING None 6] (new_SessionManager 3600000)) ''s1'') = Some RUNNING \<and>
   map_option completedAt
     (get_session (run_ops [Create ''s1'' demo_item None 0, Close ''s1'' None 5,
        UpdateStatus ''s1'' RUNNING None 6] (new_SessionManager 3600000)) ''s1'') = Some (Some 5)"
proof -
  let ?s0 = "new_SessionManager 3600000"
  let ?c = "created_session ''s1'' demo_item None 0"
  let ?s1 = "create ''s1'' demo_item None 0 ?s0"
  let ?s2 = "updateStatus ''s1'' RUNNING None 1 ?s1"
  have g1: "get_session ?s1 ''s1'' = Some ?c"
    by (simp add: get_session_create)
  have t1: "timers ?s1 0 = Some (''s1'', 3600000)"
    by (simp add: timers_create new_SessionManager_def)
  have g2: "get_session ?s2 ''s1'' = Some (status_written RUNNING None 1 ?c)"
    by (simp add: get_session_updateStatus g1)
  have t2: "timers ?s2 0 = Some (''s1'', 3600000)"
    by (simp add: timers_updateStatus_open t1)
  have g3: "get_session (fire_timer 0 3600000 ?s2) ''s1'' =
      Some (status_written TIMEOUT (Some timeout_error) 3600000
        (status_written RUNNING None 1 ?c))"
    by (simp add: get_session_fire_timer t2 g2)
  let ?s2' = "close ''s1'' None 5 ?s1"
  have g2': "get_session ?s2' ''s1'' = Some (status_written COMPLETED None 5 ?c)"
    by (simp add: get_session_close g1)
  have g3': "get_session (updateStatus ''s1'' RUNNING None 6 ?s2') ''s1'' =
      Some (status_written RUNNING None 6 (status_written COMPLETED None 5 ?c))"
    by (simp add: get_session_updateStatus g2')
  have r1: "run_ops [Create ''s1'' demo_item None 0, UpdateStatus ''s1'' RUNNING None 1,
        TimerFires 0 3600000] ?s0 = fire_timer 0 3600000 ?s2"
    by simp
  have r2: "run_ops [Create ''s1'' demo_item None 0, Close ''s1'' None 5,
        UpdateStatus ''s1'' RUNNING None 6] ?s0 = updateStatus ''s1'' RUNNING None 6 ?s2'"
    by simp
  show ?thesis
    unfolding r1 r2 g3 g3' by simp
qed

lemma emitted_fire_timer:
  "emitted (fire_timer h now s) =
     (case timers s h of
        None \<Rightarrow> emitted s
      | Some (sid, due) \<Rightarrow>
          if due \<le> now then
            (case get_session s sid of
               None \<Rightarrow> emitted s
             | Some x \<Rightarrow>
                 if status x = RUNNING
                 then emitted s @ [SessionUpdated sid, SessionTimeout sid]
                 else emitted s)
          else emitted s)"
  by (simp add: fire_timer_def timeout_callback_def emitted_updateStatus emit_def
      split: option.splits)

text \<open>
  Claim C2, as amended. When the pending timer of a session that is in the store comes
  due and fires: if the session's status is RUNNING, the store sets the status to
  TIMEOUT, records the fixed error descriptor \<open>timeout_error\<close>, leaves \<open>completedAt\<close>
  as it was, and emits an update event followed by a timeout event; if the status is
  anything else, CREATED included, neither the sessions nor the emitted events change.
  A timer therefore never takes a session from CREATED to TIMEOUT.
\<close>

theorem timer_fires_only_running:
  assumes "timers s h = Some (sid, due)" and "due \<le> now" and "get_session s sid = Some x"
  shows "(status x = RUNNING \<longrightarrow>
            map_option status (get_session (fire_timer h now s) sid) = Some TIMEOUT \<and>
            map_option session_error (get_session (fire_timer h now s) sid)
              = Some (Some timeout_error) \<and>
            map_option completedAt (get_session (fire_timer h now s) sid)
              = Some (completedAt x) \<and>
            emitted (fire_timer h now s) = emitted s @ [SessionUpdated sid, SessionTimeout sid]) \<and>
         (status x \<noteq> RUNNING \<longrightarrow>
            sessions (fire_timer h now s) = sessions s \<and>
            emitted (fire_timer h now s) = emitted s)"
  using assms
  by (simp add: get_session_fire_timer sessions_fire_timer emitted_fire_timer)

lemma emitted_create:
  "emitted (create sid item extra now s) = emitted s @ [SessionCreated sid]"
  by (simp add: create_def Let_def emit_def setupTimeout_def put_session_def)

theorem timer_fires_only_running_witness:
  "map_option status
     (get_session (fire_timer 0 3600000
        (updateStatus ''s1'' RUNNING None 1
          (create ''s1'' demo_item None 0 (new_SessionManager 3600000)))) ''s1'') = Some TIMEOUT \<and>
   map_option session_error
     (get_session (fire_timer 0 3600000
        (updateStatus ''s1'' RUNNING None 1
          (create ''s1'' demo_item None 0 (new_SessionManager 3600000)))) ''s1'')
     = Some (Some timeout_error)"
proof -
  let ?c = "created_session ''s1'' demo_item None 0"
  let ?s1 = "create ''s1'' demo_item None 0 (new_SessionManager 3600000)"
  let ?s2 = "updateStatus ''s1'' RUNNING None 1 ?s1"
  have g1: "get_session ?s1 ''s1'' = Some ?c"
    by (simp add: get_session_create)
  have t1: "timers ?s1 0 = Some (''s1'', 3600000)"
    by (simp add: timers_create new_SessionManager_def)
  have g2: "get_session ?s2 ''s1'' = Some (status_written RUNNING None 1 ?c)"
    by (simp add: get_session_updateStatus g1)
  have t2: "timers ?s2 0 = Some (''s1'', 3600000)"
    by (simp add: timers_updateStatus_open t1)
  have due: "(3600000::int) \<le> 3600000"
    by simp
  have r: "status (status_written RUNNING None 1 ?c) = RUNNING"
    by simp
  show ?thesis
    using timer_fires_only_running [OF t2 due g2] r by blast
qed

text \<open>
  Claim C2 as stated fails in its second part: a timer that fires before the session
  was ever marked RUNNING leaves it CREATED and emits nothing (the only event is the one
  of the creation).
\<close>

theorem created_to_timeout_counterexample:
  "map_option status
     (get_session (fire_timer 0 3600000
        (create ''s1'' demo_item None 0 (new_SessionManager 3600000))) ''s1'') = Some CREATED \<and>
   emitted (fire_timer 0 3600000 (create ''s1'' demo_item None 0 (new_SessionManager 3600000)))
     = [SessionCreated ''s1'']"
proof -
  let ?c = "created_session ''s1'' demo_item None 0"
  let ?s1 = "create ''s1'' demo_item None 0 (new_SessionManager 3600000)"
  have g1: "get_session ?s1 ''s1'' = Some ?c"
    by (simp add: get_session_create)
  have t1: "timers ?s1 0 = Some (''s1'', 3600000)"
    by (simp add: timers_create new_SessionManager_def)
  have e1: "emitted ?s1 = [SessionCreated ''s1'']"
    by (simp add: emitted_create new_SessionManager_def)
  show ?thesis
    by (simp add: get_session_fire_timer emitted_fire_timer t1 g1 e1)
qed

section \<open>Properties of the backoff executor and the step runner\<close>

lemma retry_loop_all_retryable:
  assumes fails: "\<And>k. fn k = Inl (errs k) \<and> isRetryableError (errs k) opts"
    and "1 \<le> attempt" and "int attempt \<le> maxAttempts opts"
  shows "fst (retry_loop opts fn attempt st)
           = Inl (Thrown (errs (calls st + (nat (maxAttempts opts) - attempt)))) \<and>
         calls (snd (retry_loop opts fn attempt st))
           = calls st + (nat (maxAttempts opts) - attempt) + 1"
  using assms(2,3)
proof (induction "nat (maxAttempts opts) - attempt" arbitrary: attempt st)
  case 0
  then have last: "int attempt \<ge> maxAttempts opts" by linarith
  show ?case
    using "0.prems" last fails [of "calls st"] "0.hyps"
    by (subst (1 2) retry_loop.simps) simp
next
  case (Suc d)
  then have more: "\<not> int attempt \<ge> maxAttempts opts" by linarith
  let ?st = "st\<lparr>calls := Suc (calls st),
      slept := slept st @ [calculateDelay attempt opts],
      hook_state := (case onRetry opts of None \<Rightarrow> hook_state st
         | Some hook \<Rightarrow> hook (errs (calls st)) attempt (hook_state st))\<rparr>"
  have step: "retry_loop opts fn attempt st = retry_loop opts fn (Suc attempt) ?st"
    using Suc.prems more fails [of "calls st"]
    by (subst retry_loop.simps) (simp add: Let_def)
  have d: "d = nat (maxAttempts opts) - Suc attempt"
    using Suc.hyps(2) by linarith
  have le: "int (Suc attempt) \<le> maxAttempts opts"
    using more by linarith
  have ih: "fst (retry_loop opts fn (Suc attempt) ?st)
           = Inl (Thrown (errs (calls ?st + (nat (maxAttempts opts) - Suc attempt)))) \<and>
         calls (snd (retry_loop opts fn (Suc attempt) ?st))
           = calls ?st + (nat (maxAttempts opts) - Suc attempt) + 1"
    using Suc.hyps(1) [OF d _ le] by simp
  have arith: "calls ?st + (nat (maxAttempts opts) - Suc attempt)
      = calls st + (nat (maxAttempts opts) - attempt)"
    using Suc.hyps(2) by simp
  show ?case
    using ih unfolding arith step .
qed




text \<open>
  Claim C6 fails on the code for a DNS failure: the default classification of the
  backoff executor has the pattern \<open>ENOTFOUND\<close> and calls the error retryable, the
  list of \<^verbatim>\<open>BaseAgent.isRetryableError\<close> lacks it and calls the same error not
  retryable.
\<close>

theorem classifiers_disagree_on_dns_failure:
  "isRetryableError dns_error (DEFAULT_RETRY_OPTIONS :: unit RetryOptions) \<and>
   \<not> agent_isRetryableError dns_error"
  by code_simp

text \<open>The other direction holds: whatever the step runner calls retryable, the
  executor's default classification does too.\<close>

lemma agent_retryable_implies_retry_default:
  assumes "retryableErrors opts = None" and "agent_isRetryableError e"
  shows "isRetryableError e opts"
  using assms
  by (auto simp: isRetryableError_def agent_isRetryableError_def agent_patterns_def
      retry_patterns_def)

lemma retry_loop_never_undefined:
  assumes "int attempt \<le> maxAttempts opts"
  shows "fst (retry_loop opts fn attempt st) \<noteq> Inl ThrownUndefined"
  using assms
proof (induction "nat (maxAttempts opts) - attempt" arbitrary: attempt st)
  case 0
  then have last: "int attempt \<ge> maxAttempts opts" by linarith
  show ?case
    using "0.prems" last
    by (subst retry_loop.simps) (simp split: sum.splits)
next
  case (Suc d)
  have d: "d = nat (maxAttempts opts) - Suc attempt"
    using Suc.hyps(2) by linarith
  have le: "int (Suc attempt) \<le> maxAttempts opts"
    using Suc.hyps(2) by linarith
  show ?case
    using Suc.prems Suc.hyps(1) [OF d le]
    by (subst retry_loop.simps) (simp add: Let_def split: sum.splits)
qed

lemma retry_loop_counts_retries:
  assumes fails: "\<And>k. fn k = Inl (errs k) \<and> isRetryableError (errs k) opts"
    and hook: "onRetry opts = Some (\<lambda>e attempt retryCount. attempt)"
    and "int attempt \<le> maxAttempts opts"
  shows "hook_state (snd (retry_loop opts fn attempt st))
           = (if int attempt < maxAttempts opts then nat (maxAttempts opts) - 1
              else hook_state st)"
  using assms(3)
proof (induction "nat (maxAttempts opts) - attempt" arbitrary: attempt st)
  case 0
  then have last: "int attempt \<ge> maxAttempts opts" by linarith
  show ?case
    using "0.prems" last fails [of "calls st"]
    by (subst retry_loop.simps) simp
next
  case (Suc d)
  then have more: "\<not> int attempt \<ge> maxAttempts opts" by linarith
  let ?st = "st\<lparr>calls := Suc (calls st),
      slept := slept st @ [calculateDelay attempt opts],
      hook_state := attempt\<rparr>"
  have step: "retry_loop opts fn attempt st = retry_loop opts fn (Suc attempt) ?st"
    using Suc.prems more fails [of "calls st"] hook
    by (subst retry_loop.simps) (simp add: Let_def)
  have d: "d = nat (maxAttempts opts) - Suc attempt"
    using Suc.hyps(2) by linarith
  have le: "int (Suc attempt) \<le> maxAttempts opts"
    using more by linarith
  have ih: "hook_state (snd (retry_loop opts fn (Suc attempt) ?st))
           = (if int (Suc attempt) < maxAttempts opts then nat (maxAttempts opts) - 1
              else hook_state ?st)"
    by (rule Suc.hyps(1) [OF d le])
  show ?case
    unfolding step ih using more le by auto
qed

subsection \<open>The timeout error is retryable for both classifiers\<close>

lemma starts_with_append: "starts_with p (p @ b)"
  by (induction p) simp_all

lemma search_starts_with: "starts_with p s \<Longrightarrow> search p s"
  by (cases s) simp_all

lemma search_append: "search p (a @ p @ b)"
  by (induction a) (simp_all add: search_starts_with starts_with_append)

lemma toUpper_timeout: "map toUpper ''timeout'' = ''TIMEOUT''"
  by code_simp

lemma toUpper_agent: "map toUpper ''Agent '' = ''AGENT ''"
  by code_simp

lemma timeout_message_matches:
  "test (LitI ''timeout'') (err_message (agent_timeout_error t))"
proof -
  have "err_message (agent_timeout_error t)
      = ''Agent '' @ ''timeout'' @ ('' after '' @ show_int t @ ''ms'')"
    by (simp add: agent_timeout_error_def)
  then have "map toUpper (err_message (agent_timeout_error t))
      = ''AGENT '' @ ''TIMEOUT'' @ map toUpper ('' after '' @ show_int t @ ''ms'')"
    by (simp only: map_append toUpper_timeout toUpper_agent)
  then show ?thesis
    by (simp only: test.simps toUpper_timeout search_append)
qed

lemma timeout_error_retryable:
  "retryableErrors opts = None \<Longrightarrow> isRetryableError (agent_timeout_error t) opts"
  using timeout_message_matches [of t]
  by (simp add: isRetryableError_def retry_patterns_def)

lemma timeout_error_agent_retryable: "agent_isRetryableError (agent_timeout_error t)"
  using timeout_message_matches [of t]
  by (simp add: agent_isRetryableError_def agent_patterns_def)

lemma agent_options_simps [simp]:
  "maxAttempts (with_defaults (agent_options config)) = effective_retries config"
  "retryableErrors (with_defaults (agent_options config)) = None"
  "onRetry (with_defaults (agent_options config)) = Some (\<lambda>e attempt retryCount. attempt)"
  by (simp_all add: with_defaults_def agent_options_def or_keep_def)

text \<open>
  Claim C7 fails on the code for an agent configured with a negative retry count: the
  loop of \<^verbatim>\<open>retry\<close> never runs, \<^verbatim>\<open>retry\<close> throws \<^verbatim>\<open>undefined\<close>, and the catch
  block of \<^verbatim>\<open>execute\<close> throws on reading its message, so \<^verbatim>\<open>execute\<close> rejects.
\<close>

theorem execute_rejects_for_negative_retries:
  "execute (new_BaseAgent \<lparr>in_agentType = ''qa-analyzer'', in_timeout = None,
      in_retries = Some (- 1), in_model = None\<rparr>) run elapsed = Inl type_error"
proof -
  let ?config = "new_BaseAgent \<lparr>in_agentType = ''qa-analyzer'', in_timeout = None,
      in_retries = Some (- 1), in_model = None\<rparr>"
  have m: "effective_retries ?config = - 1"
    by (simp add: effective_retries_def new_BaseAgent_def or_keep_def)
  have "retry (\<lambda>k. executeWithTimeout ?config (run k)) (agent_options ?config) 0
      = (Inl ThrownUndefined, \<lparr>calls = 0, slept = [], hook_state = 0\<rparr>)"
    unfolding retry_def by (subst retry_loop.simps) (simp add: m)
  then show ?thesis
    by (simp add: execute_def)
qed

text \<open>
  With at least one attempt configured (the retry count absent, zero or positive),
  \<^verbatim>\<open>execute\<close> always resolves, to a success wrapping the payload or to a failure with the
  error's message, its code when it has a non-empty one and \<open>AGENT_ERROR\<close> otherwise,
  and the flag of \<^verbatim>\<open>BaseAgent.isRetryableError\<close>.
\<close>

lemma execute_resolves:
  assumes "1 \<le> effective_retries config"
  shows "\<exists>r. execute config run elapsed = Inr r \<and>
           ((\<exists>v. success r \<and> data r = Some v \<and> error r = None) \<or>
            (\<exists>e. \<not> success r \<and> data r = None \<and>
                 error r = Some \<lparr>message = err_message e,
                   code = (case err_code e of
                             None \<Rightarrow> ''AGENT_ERROR''
                           | Some k \<Rightarrow> if k = [] then ''AGENT_ERROR'' else k),
                   retryable = agent_isRetryableError e\<rparr>))"
proof -
  let ?r = "retry (\<lambda>k. executeWithTimeout config (run k)) (agent_options config) 0"
  have "fst ?r \<noteq> Inl ThrownUndefined"
    unfolding retry_def using assms by (intro retry_loop_never_undefined) simp
  then show ?thesis
    by (cases ?r) (auto simp: execute_def split: sum.splits thrown.splits)
qed

text \<open>
  Claim C5. When every invocation of the phase's operation is still unsettled as its
  timer fires, the race of \<^verbatim>\<open>executeWithTimeout\<close> rejects with the timeout error,
  whatever the operation settles with later or whether it settles at all; and
  \<^verbatim>\<open>execute\<close>, for an agent with at least one attempt configured, resolves to one
  failure result carrying the timeout message, the generic code and the retryable flag.
  The result names no late outcome: it is the same for every way the abandoned
  operations end.
\<close>

theorem execute_times_out:
  assumes "1 \<le> effective_retries config" and "\<forall>k. \<exists>later. run k = Late later"
  shows "(\<forall>later. executeWithTimeout config (Late later :: 'o settles)
            = Inl (agent_timeout_error (effective_timeout config))) \<and>
         execute config (run :: nat \<Rightarrow> 'o settles) elapsed =
           Inr \<lparr>success = False, data = None,
                error = Some \<lparr>message = ''Agent timeout after ''
                              @ show_int (effective_timeout config) @ ''ms'',
                          code = ''AGENT_ERROR'', retryable = True\<rparr>,
                metadata = \<lparr>executionTime = elapsed,
                             retryCount = nat (effective_retries config) - 1,
                             meta_agentType = agentType config\<rparr>\<rparr>"
proof -
  let ?t = "effective_timeout config"
  let ?opts = "with_defaults (agent_options config)"
  let ?fn = "\<lambda>k. executeWithTimeout config (run k)"
  let ?st = "\<lparr>calls = 0, slept = [], hook_state = 0::nat\<rparr>"
  have race: "executeWithTimeout config (Late later) = Inl (agent_timeout_error ?t)"
    for later :: "(JsError + 'o) option"
    by (simp add: executeWithTimeout_def)
  have fails: "?fn k = Inl (agent_timeout_error ?t) \<and>
      isRetryableError (agent_timeout_error ?t) ?opts" for k
  proof -
    obtain later where "run k = Late later"
      using assms(2) by blast
    then show ?thesis
      using race [of later] by (simp add: timeout_error_retryable)
  qed
  have le: "int 1 \<le> maxAttempts ?opts"
    using assms(1) by simp
  have res: "fst (retry_loop ?opts ?fn 1 ?st) = Inl (Thrown (agent_timeout_error ?t))"
    using retry_loop_all_retryable
      [of ?fn "\<lambda>k. agent_timeout_error ?t" ?opts 1 ?st, OF fails _ le]
    by simp
  have cnt: "hook_state (snd (retry_loop ?opts ?fn 1 ?st)) = nat (effective_retries config) - 1"
    using retry_loop_counts_retries
      [of ?fn "\<lambda>k. agent_timeout_error ?t" ?opts 1 ?st, OF fails _ le] assms(1)
    by (auto simp: nat_eq_iff)
  obtain st' where r: "retry ?fn (agent_options config) 0
      = (Inl (Thrown (agent_timeout_error ?t)), st')"
    and h: "hook_state st' = nat (effective_retries config) - 1"
    using res cnt unfolding retry_def
    by (cases "retry_loop ?opts ?fn 1 ?st") auto
  have ex: "execute config run elapsed =
           Inr \<lparr>success = False, data = None,
                error = Some \<lparr>message = ''Agent timeout after '' @ show_int ?t @ ''ms'',
                          code = ''AGENT_ERROR'', retryable = True\<rparr>,
                metadata = \<lparr>executionTime = elapsed,
                             retryCount = nat (effective_retries config) - 1,
                             meta_agentType = agentType config\<rparr>\<rparr>"
    using timeout_error_agent_retryable [of ?t]
    by (simp add: execute_def r h agent_timeout_error_def)
  show ?thesis
    using race ex by blast
qed

lemma show_int_default_timeout: "show_int 300000 = ''300000''"
  by (simp add: show_int_def digits.simps)

theorem execute_times_out_witness:
  "execute analyzer_config (\<lambda>k. Late (Some (Inr ''late analysis''))) 900000 =
     Inr \<lparr>success = False, data = None,
          error = Some \<lparr>message = ''Agent timeout after 300000ms'',
                    code = ''AGENT_ERROR'', retryable = True\<rparr>,
          metadata = \<lparr>executionTime = 900000, retryCount = 2,
                       meta_agentType = ''qa-analyzer''\<rparr>\<rparr>"
proof -
  have n: "effective_retries analyzer_config = 3"
    by (simp add: effective_retries_def analyzer_config_def new_BaseAgent_def or_keep_def)
  have t: "effective_timeout analyzer_config = 300000"
    by (simp add: effective_timeout_def analyzer_config_def new_BaseAgent_def or_keep_def)
  have a: "agentType analyzer_config = ''qa-analyzer''"
    by (simp add: analyzer_config_def new_BaseAgent_def)
  have one: "1 \<le> effective_retries analyzer_config"
    by (simp add: n)
  have late: "\<forall>k. \<exists>later. (Late (Some (Inr ''late analysis'')) :: string settles) = Late later"
    by simp
  show ?thesis
    using execute_times_out [OF one late, THEN conjunct2, of 900000]
    by (simp add: n t a show_int_default_timeout)
qed

section \<open>Properties of the workflow driver\<close>

subsection \<open>Which sessions a store operation keeps\<close>

lemma absent_updateStatus [simp]:
  "get_session (updateStatus sid' st err now m) sid = None \<longleftrightarrow> get_session m sid = None"
  by (simp add: get_session_updateStatus split: option.splits)

lemma absent_updatePhase [simp]:
  "get_session (updatePhase sid' phase now m) sid = None \<longleftrightarrow> get_session m sid = None"
  by (simp add: get_session_def sessions_updatePhase update_conv' split: option.splits)

lemma absent_updateContext [simp]:
  "get_session (updateContext sid' u now m) sid = None \<longleftrightarrow> get_session m sid = None"
  by (simp add: get_session_def sessions_updateContext update_conv' split: option.splits)

lemma absent_close [simp]:
  "get_session (close sid' st now m) sid = None \<longleftrightarrow> get_session m sid = None"
  by (simp add: get_session_close split: option.splits)

lemma absent_fire_timer [simp]:
  "get_session (fire_timer h now m) sid = None \<longleftrightarrow> get_session m sid = None"
  by (simp add: get_session_fire_timer split: option.splits)

lemma present_create [simp]: "get_session (create sid item extra now m) sid \<noteq> None"
  by (simp add: get_session_create)

subsection \<open>The status an operation leaves\<close>

lemma status_updateStatus:
  "map_option status (get_session (updateStatus sid st err now m) sid) =
     (if get_session m sid = None then None else Some st)"
  by (simp add: get_session_updateStatus split: option.splits)

lemma error_updateStatus:
  "map_option session_error (get_session (updateStatus sid st (Some e) now m) sid) =
     (if get_session m sid = None then None else Some (Some e))"
  by (simp add: get_session_updateStatus split: option.splits)

lemma status_close:
  "map_option status (get_session (close sid (Some st) now m) sid) =
     (if get_session m sid = None then None else Some st)"
  by (simp add: get_session_close split: option.splits)

lemma fire_timer_keeps_settled:
  assumes "map_option status (get_session m sid) \<noteq> Some RUNNING"
  shows "get_session (fire_timer h now m) sid = get_session m sid"
  using assms by (auto simp: get_session_fire_timer split: option.splits)

subsection \<open>What a step of the driver leaves untouched\<close>

lemma absent_fire_timers [simp]:
  "get_session (fire_timers hs now m) sid = None \<longleftrightarrow> get_session m sid = None"
  unfolding fire_timers_def by (induction hs arbitrary: m) simp_all

lemma fire_timers_keeps_settled:
  assumes "map_option status (get_session m sid) \<noteq> Some RUNNING"
  shows "get_session (fire_timers hs now m) sid = get_session m sid"
  using assms unfolding fire_timers_def
proof (induction hs arbitrary: m)
  case Nil
  show ?case by simp
next
  case (Cons h hs)
  have keep: "get_session (fire_timer h now m) sid = get_session m sid"
    using Cons.prems by (rule fire_timer_keeps_settled)
  then have "map_option status (get_session (fire_timer h now m) sid) \<noteq> Some RUNNING"
    using Cons.prems by simp
  then show ?case
    using Cons.IH [of "fire_timer h now m"] keep by simp
qed

lemma awaiting_frame [simp]:
  "notion_log (awaiting env c w) = notion_log w"
  "slack_notified (awaiting env c w) = slack_notified w"
  "slack_posted (awaiting env c w) = slack_posted w"
  "agents_run (awaiting env c w) = agents_run w"
  "notion_connected (awaiting env c w) = notion_connected w"
  "slack_enabled (awaiting env c w) = slack_enabled w"
  "orchestrator_config (awaiting env c w) = orchestrator_config w"
  "isRunning (awaiting env c w) = isRunning w"
  by (simp_all add: awaiting_def Let_def)

lemma awaiting_absent [simp]:
  "get_session (manager (awaiting env c w)) sid = None \<longleftrightarrow> get_session (manager w) sid = None"
  by (simp add: awaiting_def Let_def)

lemma awaiting_keeps_settled:
  assumes "map_option status (get_session (manager w) sid) \<noteq> Some RUNNING"
  shows "get_session (manager (awaiting env c w)) sid = get_session (manager w) sid"
  using assms by (simp add: awaiting_def Let_def fire_timers_keeps_settled)

lemma on_manager_frame [simp]:
  "notion_log (on_manager f w) = notion_log w"
  "slack_notified (on_manager f w) = slack_notified w"
  "slack_posted (on_manager f w) = slack_posted w"
  "agents_run (on_manager f w) = agents_run w"
  "notion_connected (on_manager f w) = notion_connected w"
  "slack_enabled (on_manager f w) = slack_enabled w"
  "orchestrator_config (on_manager f w) = orchestrator_config w"
  "isRunning (on_manager f w) = isRunning w"
  "manager (on_manager f w) = f (clock w) (manager w)"
  by (simp_all add: on_manager_def)

lemma run_agent_frame [simp]:
  "notion_log (run_agent env name w) = notion_log w"
  "slack_notified (run_agent env name w) = slack_notified w"
  "slack_posted (run_agent env name w) = slack_posted w"
  "agents_run (run_agent env name w) = agents_run w @ [name]"
  "notion_connected (run_agent env name w) = notion_connected w"
  "slack_enabled (run_agent env name w) = slack_enabled w"
  "orchestrator_config (run_agent env name w) = orchestrator_config w"
  by (simp_all add: run_agent_def)

lemma run_agent_absent [simp]:
  "get_session (manager (run_agent env name w)) sid = None \<longleftrightarrow> get_session (manager w) sid = None"
  by (simp add: run_agent_def)

lemma slack_notify_frame [simp]:
  "notion_log (slack_notify env m w) = notion_log w"
  "slack_notified (slack_notify env m w) = slack_notified w @ [m]"
  "slack_posted (slack_notify env m w) =
     (if slack_enabled w \<and> \<not> slack_fails env m then slack_posted w @ [m] else slack_posted w)"
  "agents_run (slack_notify env m w) = agents_run w"
  "notion_connected (slack_notify env m w) = notion_connected w"
  "slack_enabled (slack_notify env m w) = slack_enabled w"
  "orchestrator_config (slack_notify env m w) = orchestrator_config w"
  by (simp_all add: slack_notify_def Let_def)

lemma slack_notify_absent [simp]:
  "get_session (manager (slack_notify env m w)) sid = None \<longleftrightarrow> get_session (manager w) sid = None"
  by (simp add: slack_notify_def Let_def)

lemma slack_notify_keeps_settled:
  assumes "map_option status (get_session (manager w) sid) \<noteq> Some RUNNING"
  shows "get_session (manager (slack_notify env m w)) sid = get_session (manager w) sid"
  using assms by (simp add: slack_notify_def Let_def awaiting_keeps_settled)

lemma notion_request_frame [simp]:
  "slack_notified (snd (notion_request env c w)) = slack_notified w"
  "slack_posted (snd (notion_request env c w)) = slack_posted w"
  "agents_run (snd (notion_request env c w)) = agents_run w"
  "notion_connected (snd (notion_request env c w)) = notion_connected w"
  "slack_enabled (snd (notion_request env c w)) = slack_enabled w"
  "orchestrator_config (snd (notion_request env c w)) = orchestrator_config w"
  by (simp_all add: notion_request_def Let_def split: option.splits)

lemma notion_request_absent [simp]:
  "get_session (manager (snd (notion_request env c w))) sid = None
     \<longleftrightarrow> get_session (manager w) sid = None"
  by (simp add: notion_request_def Let_def split: option.splits)

lemma notion_request_keeps_settled:
  assumes "map_option status (get_session (manager w) sid) \<noteq> Some RUNNING"
  shows "get_session (manager (snd (notion_request env c w))) sid = get_session (manager w) sid"
  using assms
  by (simp add: notion_request_def Let_def awaiting_keeps_settled split: option.splits)

lemma notion_request_accepted:
  assumes "notion_connected w" and "notion_fails env c = None"
  shows "fst (notion_request env c w) = None"
    and "notion_log (snd (notion_request env c w)) = notion_log w @ [c]"
  using assms by (simp_all add: notion_request_def Let_def)

lemma notion_request_rejected:
  assumes "notion_connected w" and "notion_fails env c = Some e"
  shows "fst (notion_request env c w) = Some e"
    and "notion_log (snd (notion_request env c w)) = notion_log w"
  using assms by (simp_all add: notion_request_def Let_def)

subsection \<open>Reporting to the collaborators\<close>

lemma handleNotActionable_frame [simp]:
  "agents_run (snd (handleNotActionable env item why w)) = agents_run w"
  "notion_connected (snd (handleNotActionable env item why w)) = notion_connected w"
  "slack_enabled (snd (handleNotActionable env item why w)) = slack_enabled w"
  "get_session (manager (snd (handleNotActionable env item why w))) sid = None
     \<longleftrightarrow> get_session (manager w) sid = None"
  by (simp_all add: handleNotActionable_def split_beta option.case_eq_if)

lemma handleError_frame [simp]:
  "agents_run (snd (handleError env item err w)) = agents_run w"
  "notion_connected (snd (handleError env item err w)) = notion_connected w"
  "slack_enabled (snd (handleError env item err w)) = slack_enabled w"
  "get_session (manager (snd (handleError env item err w))) sid = None
     \<longleftrightarrow> get_session (manager w) sid = None"
  by (simp_all add: handleError_def split_beta option.case_eq_if)

lemma completeQA_frame [simp]:
  "agents_run (snd (completeQA env item pr w)) = agents_run w"
  "notion_connected (snd (completeQA env item pr w)) = notion_connected w"
  "slack_enabled (snd (completeQA env item pr w)) = slack_enabled w"
  "get_session (manager (snd (completeQA env item pr w))) sid = None
     \<longleftrightarrow> get_session (manager w) sid = None"
  by (simp_all add: completeQA_def Let_def split_beta option.case_eq_if)

lemma handleNotActionable_accepted:
  assumes "notion_connected w"
    and "notion_fails env (UpdatePageStatus (qa_id item) NOT_ACTIONABLE) = None"
    and "notion_fails env (AddComment (qa_id item) (AutomationAnalysis why)) = None"
  shows "fst (handleNotActionable env item why w) = None"
    and "notion_log (snd (handleNotActionable env item why w)) =
           notion_log w @ [UpdatePageStatus (qa_id item) NOT_ACTIONABLE,
                           AddComment (qa_id item) (AutomationAnalysis why)]"
    and "slack_notified (snd (handleNotActionable env item why w)) =
           slack_notified w @ [NotifyNotActionable item why]"
    and "slack_posted (snd (handleNotActionable env item why w)) =
           (if slack_enabled w \<and> \<not> slack_fails env (NotifyNotActionable item why)
            then slack_posted w @ [NotifyNotActionable item why] else slack_posted w)"
  using assms
  by (simp_all add: handleNotActionable_def split_beta option.case_eq_if
      notion_request_accepted)

lemma handleError_accepted:
  assumes "notion_connected w"
    and "notion_fails env (UpdatePageStatus (qa_id item) IN_REVIEW) = None"
    and "notion_fails env (AddComment (qa_id item) (AutomationFailed (err_message err))) = None"
  shows "fst (handleError env item err w) = None"
    and "notion_log (snd (handleError env item err w)) =
           notion_log w @ [UpdatePageStatus (qa_id item) IN_REVIEW,
                           AddComment (qa_id item) (AutomationFailed (err_message err))]"
    and "slack_notified (snd (handleError env item err w)) =
           slack_notified w @ [NotifyError item err]"
    and "slack_posted (snd (handleError env item err w)) =
           (if slack_enabled w \<and> \<not> slack_fails env (NotifyError item err)
            then slack_posted w @ [NotifyError item err] else slack_posted w)"
  using assms
  by (simp_all add: handleError_def split_beta option.case_eq_if notion_request_accepted)

lemma handleNotActionable_rejected:
  assumes "notion_connected w"
    and "notion_fails env (UpdatePageStatus (qa_id item) NOT_ACTIONABLE) = Some e"
  shows "fst (handleNotActionable env item why w) = Some e"
    and "notion_log (snd (handleNotActionable env item why w)) = notion_log w"
    and "slack_notified (snd (handleNotActionable env item why w)) = slack_notified w"
  using assms
  by (simp_all add: handleNotActionable_def split_beta option.case_eq_if
      notion_request_rejected)

lemma handleError_rejected:
  assumes "notion_connected w"
    and "notion_fails env (UpdatePageStatus (qa_id item) IN_REVIEW) = Some e"
  shows "fst (handleError env item err w) = Some e"
    and "notion_log (snd (handleError env item err w)) = notion_log w"
    and "slack_notified (snd (handleError env item err w)) = slack_notified w"
  using assms
  by (simp_all add: handleError_def split_beta option.case_eq_if notion_request_rejected)

lemma handleError_keeps_settled:
  assumes "map_option status (get_session (manager w) sid) \<noteq> Some RUNNING"
  shows "get_session (manager (snd (handleError env item err w))) sid
           = get_session (manager w) sid"
  using assms
  by (simp add: handleError_def split_beta option.case_eq_if notion_request_keeps_settled
      slack_notify_keeps_settled)

subsection \<open>The phases\<close>

lemma phase_completion_frame [simp]:
  "notion_connected (snd (phase_completion env item sid pr w)) = notion_connected w"
  "slack_enabled (snd (phase_completion env item sid pr w)) = slack_enabled w"
  "get_session (manager (snd (phase_completion env item sid pr w))) sid' = None
     \<longleftrightarrow> get_session (manager w) sid' = None"
  by (simp_all add: phase_completion_def Let_def split_beta option.case_eq_if)

lemma phase_pr_creation_frame [simp]:
  "notion_connected (snd (phase_pr_creation env item sid w)) = notion_connected w"
  "slack_enabled (snd (phase_pr_creation env item sid w)) = slack_enabled w"
  "get_session (manager (snd (phase_pr_creation env item sid w))) sid' = None
     \<longleftrightarrow> get_session (manager w) sid' = None"
  by (simp_all add: phase_pr_creation_def Let_def split_beta option.case_eq_if)

lemma phase_implementation_frame [simp]:
  "notion_connected (snd (phase_implementation env item sid w)) = notion_connected w"
  "slack_enabled (snd (phase_implementation env item sid w)) = slack_enabled w"
  "get_session (manager (snd (phase_implementation env item sid w))) sid' = None
     \<longleftrightarrow> get_session (manager w) sid' = None"
  by (simp_all add: phase_implementation_def Let_def split_beta option.case_eq_if)

lemma phase_classification_frame [simp]:
  "notion_connected (snd (phase_classification env item sid w)) = notion_connected w"
  "slack_enabled (snd (phase_classification env item sid w)) = slack_enabled w"
  "get_session (manager (snd (phase_classification env item sid w))) sid' = None
     \<longleftrightarrow> get_session (manager w) sid' = None"
  by (simp_all add: phase_classification_def Let_def split_beta option.case_eq_if)

lemma phase_analysis_frame [simp]:
  "notion_connected (snd (phase_analysis env item sid w)) = notion_connected w"
  "slack_enabled (snd (phase_analysis env item sid w)) = slack_enabled w"
  "get_session (manager (snd (phase_analysis env item sid w))) sid' = None
     \<longleftrightarrow> get_session (manager w) sid' = None"
  by (simp_all add: phase_analysis_def Let_def split_beta option.case_eq_if)

lemma try_block_frame [simp]:
  "notion_connected (snd (try_block env item sid w)) = notion_connected w"
  "slack_enabled (snd (try_block env item sid w)) = slack_enabled w"
  "get_session (manager (snd (try_block env item sid w))) sid' = None
     \<longleftrightarrow> get_session (manager w) sid' = None"
  by (simp_all add: try_block_def split_beta option.case_eq_if)

text \<open>A phase whose Step Result is a failure throws out of the \<^verbatim>\<open>try\<close> block right
  after its agent ran.\<close>

lemma phase_analysis_fails:
  assumes "get_session (manager w) sid \<noteq> None" and "\<not> success (analysis_result env)"
  shows "phase_analysis env item sid w =
           (Some (new_Error (''QA Analysis failed: '' @ failure_text (analysis_result env))),
            run_agent env ''qa-analyzer'' (on_manager (updatePhase sid ANALYSIS) w))"
  using assms by (simp add: phase_analysis_def Let_def option.case_eq_if del: not_None_eq)

lemma phase_classification_fails:
  assumes "get_session (manager w) sid \<noteq> None" and "\<not> success (classification_result env)"
  shows "phase_classification env item sid w =
           (Some (new_Error (''Classification failed: ''
                    @ failure_text (classification_result env))),
            run_agent env ''action-classifier'' (on_manager (updatePhase sid CLASSIFICATION) w))"
  using assms by (simp add: phase_classification_def Let_def option.case_eq_if del: not_None_eq)

lemma phase_implementation_fails:
  assumes "get_session (manager w) sid \<noteq> None" and "\<not> success (code_result env)"
  shows "phase_implementation env item sid w =
           (Some (new_Error (''Code implementation failed: '' @ failure_text (code_result env))),
            run_agent env ''code-agent'' (on_manager (updatePhase sid IMPLEMENTATION) w))"
  using assms by (simp add: phase_implementation_def Let_def option.case_eq_if del: not_None_eq)

lemma phase_pr_creation_fails:
  assumes "get_session (manager w) sid \<noteq> None" and "\<not> success (pr_result env)"
  shows "phase_pr_creation env item sid w =
           (Some (new_Error (''PR creation failed: '' @ failure_text (pr_result env))),
            run_agent env ''pr-manager'' (on_manager (updatePhase sid PR_CREATION) w))"
  using assms by (simp add: phase_pr_creation_def Let_def option.case_eq_if del: not_None_eq)

text \<open>A phase whose Step Result is a success merges it and hands over to the next.\<close>

lemma phase_analysis_continues:
  assumes "get_session (manager w) sid \<noteq> None" and "success (analysis_result env)"
  shows "phase_analysis env item sid w =
           phase_classification env item sid
             (on_manager
                (updateContext sid (no_updates\<lparr>p_analysis := Some (data (analysis_result env))\<rparr>))
                (run_agent env ''qa-analyzer'' (on_manager (updatePhase sid ANALYSIS) w)))"
  using assms by (simp add: phase_analysis_def Let_def option.case_eq_if del: not_None_eq)

lemma phase_classification_continues:
  assumes "get_session (manager w) sid \<noteq> None" and "success (classification_result env)"
    and "data (classification_result env) = Some d" and "shouldAct d"
  shows "phase_classification env item sid w =
           phase_implementation env item sid
             (on_manager
                (updateContext sid
                   (no_updates\<lparr>p_decision := Some (data (classification_result env))\<rparr>))
                (run_agent env ''action-classifier''
                   (on_manager (updatePhase sid CLASSIFICATION) w)))"
  using assms by (simp add: phase_classification_def Let_def option.case_eq_if del: not_None_eq)

lemma phase_classification_stops:
  assumes "get_session (manager w) sid \<noteq> None" and "success (classification_result env)"
    and "data (classification_result env) = Some d" and "\<not> shouldAct d"
  shows "phase_classification env item sid w =
           (case handleNotActionable env item (reason d)
                   (on_manager
                      (updateContext sid
                         (no_updates\<lparr>p_decision := Some (data (classification_result env))\<rparr>))
                      (run_agent env ''action-classifier''
                         (on_manager (updatePhase sid CLASSIFICATION) w))) of
              (Some e, w4) \<Rightarrow> (Some e, w4)
            | (None, w4) \<Rightarrow> (None, on_manager (close sid (Some COMPLETED)) w4))"
  using assms by (simp add: phase_classification_def Let_def option.case_eq_if del: not_None_eq)

lemma phase_implementation_continues:
  assumes "get_session (manager w) sid \<noteq> None" and "success (code_result env)"
  shows "phase_implementation env item sid w =
           phase_pr_creation env item sid
             (on_manager
                (updateContext sid (no_updates\<lparr>p_codeChanges := Some (data (code_result env))\<rparr>))
                (run_agent env ''code-agent'' (on_manager (updatePhase sid IMPLEMENTATION) w)))"
  using assms by (simp add: phase_implementation_def Let_def option.case_eq_if del: not_None_eq)

lemma started_frame [simp]:
  "notion_log (started env item w) = notion_log w"
  "slack_notified (started env item w) = slack_notified w"
  "slack_posted (started env item w) = slack_posted w"
  "agents_run (started env item w) = agents_run w"
  "notion_connected (started env item w) = notion_connected w"
  "slack_enabled (started env item w) = slack_enabled w"
  "get_session (manager (started env item w)) (generated_id env) \<noteq> None"
  by (simp_all add: started_def del: not_None_eq)

lemma entered_frame [simp]:
  "slack_notified (entered env item w) = slack_notified w @ [NotifyStart item]"
  "agents_run (entered env item w) = agents_run w"
  "notion_connected (entered env item w) = notion_connected w"
  "slack_enabled (entered env item w) = slack_enabled w"
  "get_session (manager (entered env item w)) sid = None
     \<longleftrightarrow> get_session (manager w) sid = None"
  by (simp_all add: entered_def)

lemma entered_notion_log:
  "notion_connected w \<Longrightarrow>
   notion_fails env (UpdatePageStatus (qa_id item) IN_PROGRESS) = None \<Longrightarrow>
   notion_log (entered env item w) = notion_log w @ [UpdatePageStatus (qa_id item) IN_PROGRESS]"
  by (simp add: entered_def notion_request_accepted)

lemma analysed_frame [simp]:
  "notion_log (analysed env sid w) = notion_log w"
  "slack_notified (analysed env sid w) = slack_notified w"
  "slack_posted (analysed env sid w) = slack_posted w"
  "agents_run (analysed env sid w) = agents_run w @ [''qa-analyzer'']"
  "notion_connected (analysed env sid w) = notion_connected w"
  "slack_enabled (analysed env sid w) = slack_enabled w"
  "get_session (manager (analysed env sid w)) sid' = None
     \<longleftrightarrow> get_session (manager w) sid' = None"
  by (simp_all add: analysed_def)

lemma classified_frame [simp]:
  "notion_log (classified env sid w) = notion_log w"
  "slack_notified (classified env sid w) = slack_notified w"
  "slack_posted (classified env sid w) = slack_posted w"
  "agents_run (classified env sid w) = agents_run w @ [''action-classifier'']"
  "notion_connected (classified env sid w) = notion_connected w"
  "slack_enabled (classified env sid w) = slack_enabled w"
  "get_session (manager (classified env sid w)) sid' = None
     \<longleftrightarrow> get_session (manager w) sid' = None"
  by (simp_all add: classified_def)

lemma implemented_frame [simp]:
  "notion_log (implemented env sid w) = notion_log w"
  "slack_notified (implemented env sid w) = slack_notified w"
  "slack_posted (implemented env sid w) = slack_posted w"
  "agents_run (implemented env sid w) = agents_run w @ [''code-agent'']"
  "notion_connected (implemented env sid w) = notion_connected w"
  "slack_enabled (implemented env sid w) = slack_enabled w"
  "get_session (manager (implemented env sid w)) sid' = None
     \<longleftrightarrow> get_session (manager w) sid' = None"
  by (simp_all add: implemented_def)

lemma try_block_enters:
  assumes "notion_connected w"
    and "notion_fails env (UpdatePageStatus (qa_id item) IN_PROGRESS) = None"
  shows "try_block env item sid w = phase_analysis env item sid (entered env item w)"
  using assms
  by (simp add: try_block_def entered_def split_beta option.case_eq_if notion_request_accepted)

lemma processQA_unfold:
  "processQA env item w =
     (case try_block env item (generated_id env) (started env item w) of
        (None, w3) \<Rightarrow> (None, w3)
      | (Some e, w3) \<Rightarrow>
          (Some e,
           on_manager
             (updateStatus (generated_id env) FAILED
                (Some \<lparr>message = err_message e, code = ''PROCESSING_ERROR'',
                        retryable = False\<rparr>)) w3))"
  by (simp add: processQA_def started_def Let_def)

subsection \<open>An error thrown out of the try block\<close>

lemma handleNewQA_thrown:
  assumes "qa_status item = NOT_STARTED"
    and "try_block env item (generated_id env) (started env item w) = (Some e, W)"
  shows "handleNewQA env item w =
           handleError env item e
             (on_manager (updateStatus (generated_id env) FAILED (Some (failure_descriptor e))) W)"
  using assms by (simp add: handleNewQA_def processQA_unfold failure_descriptor_def)

lemma thrown_world:
  assumes "try_block env item (generated_id env) (started env item w) = (Some e, W)"
  shows "notion_connected W = notion_connected w"
    and "slack_enabled W = slack_enabled w"
    and "get_session (manager W) (generated_id env) \<noteq> None"
proof -
  have W: "W = snd (try_block env item (generated_id env) (started env item w))"
    using assms by simp
  show "notion_connected W = notion_connected w" and "slack_enabled W = slack_enabled w"
    unfolding W by simp_all
  show "get_session (manager W) (generated_id env) \<noteq> None"
    unfolding W by (simp del: not_None_eq)
qed

lemma thrown_is_reported:
  assumes ns: "qa_status item = NOT_STARTED" and conn: "notion_connected w"
    and ok1: "notion_fails env (UpdatePageStatus (qa_id item) IN_REVIEW) = None"
    and ok2: "notion_fails env (AddComment (qa_id item) (AutomationFailed (err_message e))) = None"
    and tb: "try_block env item (generated_id env) (started env item w) = (Some e, W)"
    and ar: "agents_run W = agents_run w @ invoked"
    and nl: "notion_log W = notion_log w @ [UpdatePageStatus (qa_id item) IN_PROGRESS]"
    and sn: "slack_notified W = slack_notified w @ [NotifyStart item]"
  shows "reports_failure env item w e invoked"
proof -
  let ?sid = "generated_id env"
  let ?F = "on_manager (updateStatus ?sid FAILED (Some (failure_descriptor e))) W"
  have h: "handleNewQA env item w = handleError env item e ?F"
    using ns tb by (rule handleNewQA_thrown)
  have present: "get_session (manager W) ?sid \<noteq> None"
    using tb by (rule thrown_world)
  have connF: "notion_connected ?F"
    using thrown_world(1) [OF tb] conn by simp
  have st: "map_option status (get_session (manager ?F) ?sid) = Some FAILED"
    using present by (simp add: status_updateStatus del: not_None_eq)
  have er: "map_option session_error (get_session (manager ?F) ?sid)
      = Some (Some (failure_descriptor e))"
    using present by (simp add: error_updateStatus del: not_None_eq)
  have settled: "map_option status (get_session (manager ?F) ?sid) \<noteq> Some RUNNING"
    unfolding st by simp
  have keep: "get_session (manager (snd (handleError env item e ?F))) ?sid
      = get_session (manager ?F) ?sid"
    using settled by (rule handleError_keeps_settled)
  have r: "fst (handleNewQA env item w) = None"
    unfolding h using connF ok1 ok2 by (rule handleError_accepted)
  have l: "notion_log (snd (handleNewQA env item w)) =
       notion_log w @ [UpdatePageStatus (qa_id item) IN_PROGRESS,
                       UpdatePageStatus (qa_id item) IN_REVIEW,
                       AddComment (qa_id item) (AutomationFailed (err_message e))]"
    unfolding h using handleError_accepted(2) [OF connF ok1 ok2] nl by simp
  have s: "slack_notified (snd (handleNewQA env item w)) =
       slack_notified w @ [NotifyStart item, NotifyError item e]"
    unfolding h using handleError_accepted(3) [OF connF ok1 ok2] sn by simp
  have a: "agents_run (snd (handleNewQA env item w)) = agents_run w @ invoked"
    unfolding h using ar by simp
  have p: "slack_enabled w \<and> \<not> slack_fails env (NotifyError item e) \<longrightarrow>
        NotifyError item e \<in> set (slack_posted (snd (handleNewQA env item w)))"
    unfolding h using handleError_accepted(4) [OF connF ok1 ok2] thrown_world(2) [OF tb]
    by simp
  have more: "handle_items ((env, item) # rest) w
      = handle_items rest (snd (handleNewQA env item w))" for rest
    using r by (cases "handleNewQA env item w") simp
  show ?thesis
    unfolding reports_failure_def
    using r l s a p more st er keep unfolding h by simp
qed

lemma throws_in_analysis:
  assumes "notion_connected w"
    and "notion_fails env (UpdatePageStatus (qa_id item) IN_PROGRESS) = None"
    and "\<not> success (analysis_result env)"
  shows "throws_after env item w
           (new_Error (''QA Analysis failed: '' @ failure_text (analysis_result env)))
           [''qa-analyzer'']"
  unfolding throws_after_def using assms
  by (simp add: try_block_enters phase_analysis_fails entered_notion_log del: not_None_eq)

lemma throws_in_classification:
  assumes "notion_connected w"
    and "notion_fails env (UpdatePageStatus (qa_id item) IN_PROGRESS) = None"
    and "success (analysis_result env)" and "\<not> success (classification_result env)"
  shows "throws_after env item w
           (new_Error (''Classification failed: '' @ failure_text (classification_result env)))
           [''qa-analyzer'', ''action-classifier'']"
  unfolding throws_after_def using assms
  by (simp add: try_block_enters phase_analysis_continues phase_classification_fails
      entered_notion_log analysed_def [symmetric] del: not_None_eq)

lemma throws_in_implementation:
  assumes "notion_connected w"
    and "notion_fails env (UpdatePageStatus (qa_id item) IN_PROGRESS) = None"
    and "success (analysis_result env)" and "success (classification_result env)"
    and "data (classification_result env) = Some d" and "shouldAct d"
    and "\<not> success (code_result env)"
  shows "throws_after env item w
           (new_Error (''Code implementation failed: '' @ failure_text (code_result env)))
           [''qa-analyzer'', ''action-classifier'', ''code-agent'']"
  unfolding throws_after_def using assms
  by (simp add: try_block_enters phase_analysis_continues
      phase_classification_continues [where d = d] phase_implementation_fails
      entered_notion_log analysed_def [symmetric] classified_def [symmetric]
      del: not_None_eq)

lemma throws_in_pr_creation:
  assumes "notion_connected w"
    and "notion_fails env (UpdatePageStatus (qa_id item) IN_PROGRESS) = None"
    and "success (analysis_result env)" and "success (classification_result env)"
    and "data (classification_result env) = Some d" and "shouldAct d"
    and "success (code_result env)" and "\<not> success (pr_result env)"
  shows "throws_after env item w
           (new_Error (''PR creation failed: '' @ failure_text (pr_result env)))
           [''qa-analyzer'', ''action-classifier'', ''code-agent'', ''pr-manager'']"
  unfolding throws_after_def using assms
  by (simp add: try_block_enters phase_analysis_continues
      phase_classification_continues [where d = d] phase_implementation_continues
      phase_pr_creation_fails entered_notion_log analysed_def [symmetric]
      classified_def [symmetric] implemented_def [symmetric] del: not_None_eq)

lemma thrown_after_is_reported:
  assumes "qa_status item = NOT_STARTED" and "notion_connected w"
    and "\<forall>c. notion_fails env c = None"
    and "throws_after env item w e invoked"
  shows "reports_failure env item w e invoked"
proof -
  obtain W where "try_block env item (generated_id env) (started env item w) = (Some e, W)"
    and "agents_run W = agents_run w @ invoked"
    and "notion_log W = notion_log w @ [UpdatePageStatus (qa_id item) IN_PROGRESS]"
    and "slack_notified W = slack_notified w @ [NotifyStart item]"
    using assms(4) unfolding throws_after_def by blast
  then show ?thesis
    using assms(1-3) by (intro thrown_is_reported [where W = W]) simp_all
qed

text \<open>
  Claim C3, as amended. For a work item in "not started" status, with the item tracker
  connected and accepting every call: as soon as a phase's Step Result has
  \<open>success = false\<close>, no later agent is invoked (the agents invoked are exactly those up
  to the failing phase); the session is marked FAILED with the descriptor made of the
  message \<open>"<phase> failed: "\<close> followed by the step's error message, the code
  \<open>PROCESSING_ERROR\<close> and \<open>retryable = false\<close>; the item is moved to "in review" and
  a comment with that message is attached; the failure notification with the thrown
  error is handed to the notifier (and posted when the notifier is enabled and the post
  succeeds); and the handler returns normally, so the polling loop goes on with the
  items that follow.
\<close>

theorem failed_phase_aborts_pipeline:
  assumes "qa_status item = NOT_STARTED" and "notion_connected w"
    and "\<forall>c. notion_fails env c = None"
  shows "(\<not> success (analysis_result env) \<longrightarrow>
            reports_failure env item w
              (new_Error (''QA Analysis failed: '' @ failure_text (analysis_result env)))
              [''qa-analyzer'']) \<and>
         (success (analysis_result env) \<and> \<not> success (classification_result env) \<longrightarrow>
            reports_failure env item w
              (new_Error (''Classification failed: ''
                            @ failure_text (classification_result env)))
              [''qa-analyzer'', ''action-classifier'']) \<and>
         (success (analysis_result env) \<and> success (classification_result env) \<and>
          (\<exists>d. data (classification_result env) = Some d \<and> shouldAct d) \<and>
          \<not> success (code_result env) \<longrightarrow>
            reports_failure env item w
              (new_Error (''Code implementation failed: '' @ failure_text (code_result env)))
              [''qa-analyzer'', ''action-classifier'', ''code-agent'']) \<and>
         (success (analysis_result env) \<and> success (classification_result env) \<and>
          (\<exists>d. data (classification_result env) = Some d \<and> shouldAct d) \<and>
          success (code_result env) \<and> \<not> success (pr_result env) \<longrightarrow>
            reports_failure env item w
              (new_Error (''PR creation failed: '' @ failure_text (pr_result env)))
              [''qa-analyzer'', ''action-classifier'', ''code-agent'', ''pr-manager''])"
proof -
  have ok: "notion_fails env (UpdatePageStatus (qa_id item) IN_PROGRESS) = None"
    using assms(3) by simp
  note report = thrown_after_is_reported [OF assms]
  show ?thesis
    using throws_in_analysis [OF assms(2) ok, THEN report]
      throws_in_classification [OF assms(2) ok, THEN report]
      throws_in_implementation [OF assms(2) ok, THEN report]
      throws_in_pr_creation [OF assms(2) ok, THEN report]
    by blast
qed

text \<open>A polling tick whose first item is handled without a rejection goes on with the
  rest of its items.\<close>

lemma poll_tick_goes_on:
  assumes "isRunning w" and "fst (handleNewQA env item w) = None"
  shows "poll_tick (Inr ((env, item) # rest)) w
           = snd (handle_items rest (snd (handleNewQA env item w)))"
  using assms by (cases "handleNewQA env item w") (simp add: poll_tick_def)

subsection \<open>The not-actionable path\<close>

lemma emitted_close:
  "get_session m sid \<noteq> None \<Longrightarrow>
   emitted (close sid st now m) = emitted m @ [SessionUpdated sid, SessionClosed sid]"
  by (auto simp: close_def Let_def emit_def clearTimeout_def emitted_updateStatus
      split: option.splits)

lemma not_actionable_world:
  assumes conn: "notion_connected w"
    and ok0: "notion_fails env (UpdatePageStatus (qa_id item) IN_PROGRESS) = None"
    and sa: "success (analysis_result env)" and sc: "success (classification_result env)"
    and d: "data (classification_result env) = Some d" and na: "\<not> shouldAct d"
  shows "try_block env item (generated_id env) (started env item w) =
           (case handleNotActionable env item (reason d)
                   (classified env (generated_id env)
                      (analysed env (generated_id env) (entered env item (started env item w)))) of
              (Some e, w4) \<Rightarrow> (Some e, w4)
            | (None, w4) \<Rightarrow>
                (None, on_manager (close (generated_id env) (Some COMPLETED)) w4))"
  using assms
  by (simp add: try_block_enters phase_analysis_continues
      phase_classification_stops [where d = d] analysed_def [symmetric]
      classified_def del: not_None_eq)

lemma not_actionable_is_closed:
  assumes ns: "qa_status item = NOT_STARTED" and conn: "notion_connected w"
    and ok: "\<forall>c. notion_fails env c = None"
    and sa: "success (analysis_result env)" and sc: "success (classification_result env)"
    and d: "data (classification_result env) = Some d" and na: "\<not> shouldAct d"
  shows "stops_as_not_actionable env item w (reason d)"
proof -
  let ?sid = "generated_id env"
  let ?C = "classified env ?sid (analysed env ?sid (entered env item (started env item w)))"
  let ?N = "snd (handleNotActionable env item (reason d) ?C)"
  let ?Z = "on_manager (close ?sid (Some COMPLETED)) ?N"
  have ok0: "notion_fails env (UpdatePageStatus (qa_id item) IN_PROGRESS) = None"
    and ok1: "notion_fails env (UpdatePageStatus (qa_id item) NOT_ACTIONABLE) = None"
    and ok2: "notion_fails env (AddComment (qa_id item) (AutomationAnalysis (reason d))) = None"
    using ok by simp_all
  have connC: "notion_connected ?C"
    using conn by simp
  have f: "fst (handleNotActionable env item (reason d) ?C) = None"
    using connC ok1 ok2 by (rule handleNotActionable_accepted)
  have tb: "try_block env item ?sid (started env item w) = (None, ?Z)"
    using not_actionable_world [OF conn ok0 sa sc d na] f
    by (simp add: split_beta)
  have h: "handleNewQA env item w = (None, ?Z)"
    using ns tb by (simp add: handleNewQA_def processQA_unfold)
  have present: "get_session (manager ?N) ?sid \<noteq> None"
    by (simp del: not_None_eq)
  have st: "map_option status (get_session (manager ?Z) ?sid) = Some COMPLETED"
    using present by (simp add: status_close del: not_None_eq)
  have ev: "last (emitted (manager ?Z)) = SessionClosed ?sid"
    using present by (simp add: emitted_close del: not_None_eq)
  have l: "notion_log ?Z =
       notion_log w @ [UpdatePageStatus (qa_id item) IN_PROGRESS,
                       UpdatePageStatus (qa_id item) NOT_ACTIONABLE,
                       AddComment (qa_id item) (AutomationAnalysis (reason d))]"
    using handleNotActionable_accepted(2) [OF connC ok1 ok2] conn ok0
    by (simp add: entered_notion_log)
  have s: "slack_notified ?Z =
       slack_notified w @ [NotifyStart item, NotifyNotActionable item (reason d)]"
    using handleNotActionable_accepted(3) [OF connC ok1 ok2] by simp
  have p: "slack_enabled w \<and> \<not> slack_fails env (NotifyNotActionable item (reason d)) \<longrightarrow>
        NotifyNotActionable item (reason d) \<in> set (slack_posted ?Z)"
    using handleNotActionable_accepted(4) [OF connC ok1 ok2] by simp
  have a: "agents_run ?Z = agents_run w @ [''qa-analyzer'', ''action-classifier'']"
    by simp
  show ?thesis
    unfolding stops_as_not_actionable_def h using st ev l s p a by simp
qed

text \<open>
  Claim C9, as amended. For a work item in "not started" status whose analysis phase
  succeeds and whose classification phase returns \<open>shouldAct = false\<close>, with the item
  tracker connected and accepting every call: the pipeline stops after classification.
  The handler returns normally, the session is closed with status COMPLETED, the item
  is moved to "not actionable" with the explanatory comment, the not-actionable
  notification is handed to the notifier (and posted when the notifier is enabled and
  the post succeeds), and the agents invoked are the analyzer and the classifier only:
  the implementation and reporting agents never run.
\<close>

theorem not_actionable_stops_pipeline:
  assumes "qa_status item = NOT_STARTED" and "notion_connected w"
    and "\<forall>c. notion_fails env c = None"
    and "success (analysis_result env)" and "success (classification_result env)"
    and "data (classification_result env) = Some d" and "\<not> shouldAct d"
  shows "stops_as_not_actionable env item w (reason d)"
  using assms by (rule not_actionable_is_closed)

subsection \<open>A disabled notifier posts nothing\<close>

lemma silent_reports:
  assumes "\<not> slack_enabled w"
  shows "slack_posted (snd (handleNotActionable env item why w)) = slack_posted w"
    and "slack_posted (snd (handleError env item e w)) = slack_posted w"
    and "slack_posted (snd (completeQA env item pr w)) = slack_posted w"
  using assms
  by (simp_all add: handleNotActionable_def handleError_def completeQA_def Let_def split_beta
      option.case_eq_if)

lemma silent_completion:
  "\<not> slack_enabled w \<Longrightarrow> slack_posted (snd (phase_completion env item sid pr w)) = slack_posted w"
  by (simp add: phase_completion_def Let_def split_beta option.case_eq_if silent_reports)

lemma silent_pr_creation:
  "\<not> slack_enabled w \<Longrightarrow> slack_posted (snd (phase_pr_creation env item sid w)) = slack_posted w"
  by (simp add: phase_pr_creation_def Let_def split_beta option.case_eq_if silent_completion)

lemma silent_implementation:
  "\<not> slack_enabled w \<Longrightarrow> slack_posted (snd (phase_implementation env item sid w)) = slack_posted w"
  by (simp add: phase_implementation_def Let_def split_beta option.case_eq_if
      silent_pr_creation)

lemma silent_classification:
  "\<not> slack_enabled w \<Longrightarrow> slack_posted (snd (phase_classification env item sid w)) = slack_posted w"
  by (simp add: phase_classification_def Let_def split_beta option.case_eq_if
      silent_implementation silent_reports)

lemma silent_analysis:
  "\<not> slack_enabled w \<Longrightarrow> slack_posted (snd (phase_analysis env item sid w)) = slack_posted w"
  by (simp add: phase_analysis_def Let_def split_beta option.case_eq_if silent_classification)

lemma silent_try_block:
  "\<not> slack_enabled w \<Longrightarrow> slack_posted (snd (try_block env item sid w)) = slack_posted w"
  by (simp add: try_block_def split_beta option.case_eq_if silent_analysis)

lemma silent_handleNewQA:
  "\<not> slack_enabled w \<Longrightarrow> slack_posted (snd (handleNewQA env item w)) = slack_posted w"
  by (simp add: handleNewQA_def processQA_unfold split_beta option.case_eq_if
      silent_try_block silent_reports)

lemma demo_facts [simp]:
  "qa_status demo_item = NOT_STARTED"
  "qa_id demo_item = ''qa-1''"
  "notion_connected demo_world"
  "slack_enabled demo_world"
  "notion_log demo_world = []"
  "slack_notified demo_world = []"
  "slack_posted demo_world = []"
  "agents_run demo_world = []"
  by (simp_all add: demo_item_def demo_world_def)

lemma failing_env_facts [simp]:
  "notion_fails failing_env c = None"
  "generated_id failing_env = ''session-1''"
  "\<not> success (analysis_result failing_env)"
  "error (analysis_result failing_env)
     = Some \<lparr>message = ''Agent timeout after 300000ms'', code = ''AGENT_ERROR'',
             retryable = True\<rparr>"
  "failure_text (analysis_result failing_env) = ''Agent timeout after 300000ms''"
  by (simp_all add: failing_env_def timed_out_analysis_def failure_text_def)

lemma declining_env_facts [simp]:
  "notion_fails declining_env c = None"
  "generated_id declining_env = ''session-1''"
  "success (analysis_result declining_env)"
  "success (classification_result declining_env)"
  "data (classification_result declining_env)
     = Some \<lparr>shouldAct = False, reason = ''needs product decision''\<rparr>"
  by (simp_all add: declining_env_def good_analysis_def declined_def)

lemma no_review_env_facts [simp]:
  "notion_fails no_review_env (UpdatePageStatus ''qa-1'' IN_PROGRESS) = None"
  "notion_fails no_review_env (UpdatePageStatus ''qa-1'' IN_REVIEW) = Some tracker_down"
  "generated_id no_review_env = ''session-1''"
  "\<not> success (analysis_result no_review_env)"
  by (simp_all add: no_review_env_def failing_env_def timed_out_analysis_def)

lemma no_marking_env_facts [simp]:
  "notion_fails no_marking_env (UpdatePageStatus ''qa-1'' IN_PROGRESS) = None"
  "notion_fails no_marking_env (UpdatePageStatus ''qa-1'' NOT_ACTIONABLE) = Some tracker_down"
  "notion_fails no_marking_env (UpdatePageStatus ''qa-1'' IN_REVIEW) = None"
  "notion_fails no_marking_env (AddComment ''qa-1'' t) = None"
  "generated_id no_marking_env = ''session-1''"
  "success (analysis_result no_marking_env)"
  "success (classification_result no_marking_env)"
  "data (classification_result no_marking_env)
     = Some \<lparr>shouldAct = False, reason = ''needs product decision''\<rparr>"
  by (simp_all add: no_marking_env_def declining_env_def good_analysis_def declined_def)

theorem failed_phase_aborts_pipeline_witness:
  "\<not> success (analysis_result failing_env) \<and>
   reports_failure failing_env demo_item demo_world
     (new_Error (''QA Analysis failed: '' @ ''Agent timeout after 300000ms''))
     [''qa-analyzer'']"
proof -
  have a: "qa_status demo_item = NOT_STARTED" and b: "notion_connected demo_world"
    and c: "\<forall>c. notion_fails failing_env c = None"
    by simp_all
  show ?thesis
    using failed_phase_aborts_pipeline [OF a b c, THEN conjunct1] by simp
qed

theorem not_actionable_stops_pipeline_witness:
  "stops_as_not_actionable declining_env demo_item demo_world ''needs product decision''"
proof -
  have a: "qa_status demo_item = NOT_STARTED" and b: "notion_connected demo_world"
    and c: "\<forall>c. notion_fails declining_env c = None"
    and d: "success (analysis_result declining_env)"
    and e: "success (classification_result declining_env)"
    and f: "data (classification_result declining_env)
              = Some \<lparr>shouldAct = False, reason = ''needs product decision''\<rparr>"
    and g: "\<not> shouldAct \<lparr>shouldAct = False, reason = ''needs product decision''\<rparr>"
    by simp_all
  show ?thesis
    using not_actionable_stops_pipeline [OF a b c d e f g] by simp
qed

lemma throws_when_marking_rejected:
  assumes conn: "notion_connected w"
    and ok0: "notion_fails env (UpdatePageStatus (qa_id item) IN_PROGRESS) = None"
    and sa: "success (analysis_result env)" and sc: "success (classification_result env)"
    and d: "data (classification_result env) = Some d" and na: "\<not> shouldAct d"
    and rej: "notion_fails env (UpdatePageStatus (qa_id item) NOT_ACTIONABLE) = Some e"
  shows "throws_after env item w e [''qa-analyzer'', ''action-classifier'']"
proof -
  let ?sid = "generated_id env"
  let ?C = "classified env ?sid (analysed env ?sid (entered env item (started env item w)))"
  have connC: "notion_connected ?C"
    using conn by simp
  note r = handleNotActionable_rejected [OF connC rej, of "reason d"]
  have tb: "try_block env item ?sid (started env item w)
      = (Some e, snd (handleNotActionable env item (reason d) ?C))"
    using not_actionable_world [OF conn ok0 sa sc d na] r(1) by (simp add: split_beta)
  show ?thesis
    unfolding throws_after_def using tb r(2,3) conn ok0
    by (simp add: entered_notion_log)
qed

text \<open>
  Claim C3 as stated fails. When the analysis times out, the session is marked FAILED
  with the message prefixed, the code \<open>PROCESSING_ERROR\<close> and \<open>retryable = false\<close>,
  not with the descriptor of the step (code \<open>AGENT_ERROR\<close>, retryable). And when the
  tracker rejects the move to "in review", the handler itself rejects: the item is not
  moved, no comment is attached and no failure notification is handed over.
\<close>

theorem failed_phase_descriptor_counterexample:
  "map_option session_error
     (get_session (manager (snd (handleNewQA failing_env demo_item demo_world))) ''session-1'')
     = Some (Some \<lparr>message = ''QA Analysis failed: Agent timeout after 300000ms'',
                    code = ''PROCESSING_ERROR'', retryable = False\<rparr>) \<and>
   error (analysis_result failing_env)
     = Some \<lparr>message = ''Agent timeout after 300000ms'', code = ''AGENT_ERROR'',
             retryable = True\<rparr> \<and>
   fst (handleNewQA no_review_env demo_item demo_world) = Some tracker_down \<and>
   notion_log (snd (handleNewQA no_review_env demo_item demo_world))
     = [UpdatePageStatus ''qa-1'' IN_PROGRESS] \<and>
   slack_notified (snd (handleNewQA no_review_env demo_item demo_world))
     = [NotifyStart demo_item]"
proof -
  have t1: "throws_after failing_env demo_item demo_world
      (new_Error (''QA Analysis failed: '' @ failure_text (analysis_result failing_env)))
      [''qa-analyzer'']"
    by (rule throws_in_analysis) simp_all
  have "reports_failure failing_env demo_item demo_world
      (new_Error (''QA Analysis failed: '' @ failure_text (analysis_result failing_env)))
      [''qa-analyzer'']"
    using t1 by (intro thrown_after_is_reported) simp_all
  then have p1: "map_option session_error
     (get_session (manager (snd (handleNewQA failing_env demo_item demo_world))) ''session-1'')
     = Some (Some \<lparr>message = ''QA Analysis failed: Agent timeout after 300000ms'',
                    code = ''PROCESSING_ERROR'', retryable = False\<rparr>)"
    by (simp add: reports_failure_def failure_descriptor_def new_Error_def)
  let ?e = "new_Error (''QA Analysis failed: '' @ failure_text (analysis_result no_review_env))"
  have "throws_after no_review_env demo_item demo_world ?e [''qa-analyzer'']"
    by (rule throws_in_analysis) simp_all
  then obtain W where tb: "try_block no_review_env demo_item (generated_id no_review_env)
        (started no_review_env demo_item demo_world) = (Some ?e, W)"
    and nl: "notion_log W = [UpdatePageStatus ''qa-1'' IN_PROGRESS]"
    and sn: "slack_notified W = [NotifyStart demo_item]"
    unfolding throws_after_def by auto
  let ?F = "on_manager (updateStatus (generated_id no_review_env) FAILED
      (Some (failure_descriptor ?e))) W"
  have h: "handleNewQA no_review_env demo_item demo_world
      = handleError no_review_env demo_item ?e ?F"
    using tb by (intro handleNewQA_thrown) simp_all
  have connF: "notion_connected ?F"
    using thrown_world(1) [OF tb] by simp
  have rej: "notion_fails no_review_env (UpdatePageStatus (qa_id demo_item) IN_REVIEW)
      = Some tracker_down"
    by simp
  note r = handleError_rejected [OF connF rej, of ?e]
  have p2: "fst (handleNewQA no_review_env demo_item demo_world) = Some tracker_down"
    and p3: "notion_log (snd (handleNewQA no_review_env demo_item demo_world))
      = [UpdatePageStatus ''qa-1'' IN_PROGRESS]"
    and p4: "slack_notified (snd (handleNewQA no_review_env demo_item demo_world))
      = [NotifyStart demo_item]"
    unfolding h using r nl sn by simp_all
  show ?thesis
    using p1 p2 p3 p4 by simp
qed

text \<open>
  Claim C9 as stated fails. When the tracker rejects the move to "not actionable",
  the error is thrown out of the pipeline: the session ends FAILED and the item is moved
  to "in review" instead. And with the notifier disabled the pipeline ends COMPLETED
  without any notification being posted.
\<close>

theorem not_actionable_counterexample:
  "map_option status
     (get_session (manager (snd (handleNewQA no_marking_env demo_item demo_world))) ''session-1'')
     = Some FAILED \<and>
   notion_log (snd (handleNewQA no_marking_env demo_item demo_world))
     = [UpdatePageStatus ''qa-1'' IN_PROGRESS, UpdatePageStatus ''qa-1'' IN_REVIEW,
        AddComment ''qa-1'' (AutomationFailed ''tracker unavailable'')] \<and>
   map_option status
     (get_session
        (manager (snd (handleNewQA declining_env demo_item (demo_world\<lparr>slack_enabled := False\<rparr>))))
        ''session-1'')
     = Some COMPLETED \<and>
   slack_posted (snd (handleNewQA declining_env demo_item (demo_world\<lparr>slack_enabled := False\<rparr>)))
     = []"
proof -
  have "throws_after no_marking_env demo_item demo_world tracker_down
      [''qa-analyzer'', ''action-classifier'']"
    by (rule throws_when_marking_rejected
        [where d = "\<lparr>shouldAct = False, reason = ''needs product decision''\<rparr>"]) simp_all
  then have "reports_failure no_marking_env demo_item demo_world tracker_down
      [''qa-analyzer'', ''action-classifier'']"
    unfolding throws_after_def
    by (elim exE conjE, intro thrown_is_reported) simp_all
  then have p1: "map_option status
     (get_session (manager (snd (handleNewQA no_marking_env demo_item demo_world))) ''session-1'')
     = Some FAILED"
    and p2: "notion_log (snd (handleNewQA no_marking_env demo_item demo_world))
     = [UpdatePageStatus ''qa-1'' IN_PROGRESS, UpdatePageStatus ''qa-1'' IN_REVIEW,
        AddComment ''qa-1'' (AutomationFailed ''tracker unavailable'')]"
    by (simp_all add: reports_failure_def tracker_down_def new_Error_def)
  let ?w = "demo_world\<lparr>slack_enabled := False\<rparr>"
  have "stops_as_not_actionable declining_env demo_item ?w ''needs product decision''"
    using not_actionable_is_closed
      [of demo_item ?w declining_env "\<lparr>shouldAct = False, reason = ''needs product decision''\<rparr>"]
    by simp
  then have p3: "map_option status
     (get_session (manager (snd (handleNewQA declining_env demo_item ?w))) ''session-1'')
     = Some COMPLETED"
    by (simp add: stops_as_not_actionable_def)
  have p4: "slack_posted (snd (handleNewQA declining_env demo_item ?w)) = []"
    using silent_handleNewQA [of ?w declining_env demo_item] by simp
  show ?thesis
    using p1 p2 p3 p4 by simp
qed

end
